theory Spec2Isabelle
  imports Main
begin

section \<open>Values exchanged with the collaborators\<close>

text \<open>
  The script \<^verbatim>\<open>aztec-contracts.js\<close> owns no cryptography and no ledger: it calls a
  contract-artifact source (\<^verbatim>\<open>besu.readContract\<close>), contract handles (\<^verbatim>\<open>X.new\<close> and the
  methods of deployed instances) and the AZTEC library. The embedding keeps what the
  script itself does: the order of the calls, their arguments, the sums it computes,
  what it prints, and what happens when a call throws.

  Addresses, hashes, encoded proofs and signatures are strings. Note values are the
  numbers that \<^verbatim>\<open>note.k.toNumber()\<close> yields; they are integers, and the model adds and
  subtracts them as integers (JavaScript does so exactly while the totals stay inside
  its safe-integer range).

  A note carries its value \<open>k\<close> and, to tell notes apart, the public key it was
  created for. Names follow the source. Where a source name is reserved here it is changed:
  \<^verbatim>\<open>txOptions.from\<close> is \<open>tx_from\<close>, a note is an \<open>aztec_note\<close>, a deployed instance a
  \<open>contract_instance\<close>, and the global \<^verbatim>\<open>i\<close> is \<open>global_i\<close>.
\<close>

type_synonym address = string

datatype jserror = TypeError | Failure string

datatype abrupt = Thrown jserror | Exited int

record txOptions =
  tx_from :: address

record aztec_note =
  k :: int
  noteKey :: string

record aztecAccount =
  publicKey :: string

record log_args =
  owner :: string
  noteHash :: string

record log_entry =
  event :: string
  args :: log_args

record receipt =
  logs :: "log_entry list"

record contract_instance =
  address :: address

datatype schema = Schema string

datatype arg = Addr address | Num int | Arr "arg list"

datatype mint_proof = MintProof aztec_note aztec_note "aztec_note list" address

datatype joinsplit_proof = JoinSplitProof "aztec_note list" "aztec_note list" address int address

datatype contract_call =
    SetFactory int address
  | SetCommonReferenceString "string list"
  | SetProof int address
  | ConfidentialMint int string
  | ConfidentialTransfer int string string
  | PublicApprove address string int

datatype call =
    ReadContract string
  | New schema "arg list" txOptions
  | Send contract_instance contract_call txOptions

datatype logged =
    LStr string
  | LErr jserror
  | LStrErr string jserror
  | LJson "(string \<times> string) list"

text \<open>
  One event per observable action, in program order. Every external call of the script
  is awaited on the spot, so one event records the call together with the way it
  settled: rejected with a thrown value, or fulfilled with what it returned.
\<close>

datatype reply = Artifact schema | Deployed contract_instance | Receipt receipt

datatype outcome = Rejected jserror | Fulfilled reply

datatype event =
    Await call outcome
  | ConsoleLog logged
  | ProcessExit int

text \<open>
  The process state the functions share: what has happened so far, and the loop counter
  \<^verbatim>\<open>i\<close>, which no function declares and which is therefore one global variable
  (\<open>None\<close> while it holds no number).
\<close>

record world =
  trace :: "event list"
  global_i :: "nat option"

text \<open>
  The collaborators. Each answer may depend on everything that happened before, and is
  either a thrown value or a result.
\<close>

record chain =
  readContract :: "event list \<Rightarrow> string \<Rightarrow> jserror + schema"
  new :: "event list \<Rightarrow> schema \<Rightarrow> arg list \<Rightarrow> txOptions \<Rightarrow> jserror + contract_instance"
  send :: "event list \<Rightarrow> contract_instance \<Rightarrow> contract_call \<Rightarrow> txOptions \<Rightarrow> jserror + receipt"

text \<open>
  The constants and operations imported from \<^verbatim>\<open>@aztec/dev-utils\<close>, \<^verbatim>\<open>@aztec/bn128\<close> and
  \<^verbatim>\<open>aztec.js\<close>; they are not part of this repository and stay parameters. The
  operations are taken to return: they compute on their arguments and touch neither the
  ledger nor the console.
\<close>

record aztec =
  ERC20_SCALING_FACTOR :: int
  JOIN_SPLIT_PROOF :: int
  MINT_PROOF :: int
  CRS :: "string list"
  createZeroValueNote :: aztec_note
  create :: "string \<Rightarrow> int \<Rightarrow> aztec_note"
  mint_encodeABI :: "mint_proof \<Rightarrow> string"
  encodeABI :: "joinsplit_proof \<Rightarrow> address \<Rightarrow> string"
  constructSignatures :: "joinsplit_proof \<Rightarrow> address \<Rightarrow> string list \<Rightarrow> string"
  hash :: "joinsplit_proof \<Rightarrow> string"

section \<open>Sequencing, exceptions and process exit\<close>

type_synonym ('s, 'a) js = "'s \<Rightarrow> (abrupt + 'a) \<times> 's"

definition js_return :: "'a \<Rightarrow> ('s, 'a) js" where
  "js_return x = (\<lambda>s. (Inr x, s))"

definition js_throw :: "jserror \<Rightarrow> ('s, 'a) js" where
  "js_throw e = (\<lambda>s. (Inl (Thrown e), s))"

definition js_bind :: "('s, 'a) js \<Rightarrow> ('a \<Rightarrow> ('s, 'b) js) \<Rightarrow> ('s, 'b) js" where
  "js_bind m f = (\<lambda>s. case m s of (Inl a, s') \<Rightarrow> (Inl a, s') | (Inr x, s') \<Rightarrow> f x s')"

definition js_then :: "('s, 'a) js \<Rightarrow> ('s, 'b) js \<Rightarrow> ('s, 'b) js" where
  "js_then m n = js_bind m (\<lambda>_. n)"

text \<open>\<^verbatim>\<open>try { m } catch (e) { h e }\<close>: a thrown value is caught; a process exit is not.\<close>

definition try_catch :: "('s, unit) js \<Rightarrow> (jserror \<Rightarrow> ('s, unit) js) \<Rightarrow> ('s, unit) js" where
  "try_catch m h = (\<lambda>s. case m s of (Inl (Thrown e), s') \<Rightarrow> h e s' | r \<Rightarrow> r)"

definition console_log :: "logged \<Rightarrow> ('z world_scheme, unit) js" where
  "console_log x = (\<lambda>s. (Inr (), s\<lparr>trace := trace s @ [ConsoleLog x]\<rparr>))"

definition process_exit :: "int \<Rightarrow> ('z world_scheme, 'a) js" where
  "process_exit c = (\<lambda>s. (Inl (Exited c), s\<lparr>trace := trace s @ [ProcessExit c]\<rparr>))"

text \<open>\<^verbatim>\<open>await f(...)\<close> on a collaborator: the call is recorded with its outcome.\<close>

definition settled :: "('a \<Rightarrow> reply) \<Rightarrow> jserror + 'a \<Rightarrow> outcome" where
  "settled wrap r = (case r of Inl e \<Rightarrow> Rejected e | Inr v \<Rightarrow> Fulfilled (wrap v))"

definition await ::
  "call \<Rightarrow> ('a \<Rightarrow> reply) \<Rightarrow> (event list \<Rightarrow> jserror + 'a) \<Rightarrow> ('z world_scheme, 'a) js" where
  "await c wrap f = (\<lambda>s.
     let r = f (trace s);
         s' = s\<lparr>trace := trace s @ [Await c (settled wrap r)]\<rparr>
     in case r of Inl e \<Rightarrow> (Inl (Thrown e), s') | Inr v \<Rightarrow> (Inr v, s'))"

definition await_send ::
  "chain \<Rightarrow> contract_instance \<Rightarrow> contract_call \<Rightarrow> txOptions \<Rightarrow> ('z world_scheme, receipt) js" where
  "await_send ch inst m txo = await (Send inst m txo) Receipt (\<lambda>h. send ch h inst m txo)"

text \<open>The events a run added to the trace it started from.\<close>

definition emitted :: "'y world_scheme \<Rightarrow> 'z world_scheme \<Rightarrow> event list" where
  "emitted s s' = drop (length (trace s)) (trace s')"

definition lineBreak :: string where
  "lineBreak = replicate 72 (CHR ''_'') @ [CHR 0x0A]"

section \<open>The loops over the shared counter\<close>

text \<open>
  \<^verbatim>\<open>for (i = 0; i < notes.length; i++) { total += notes[i].k.toNumber(); }\<close> is the
  assignment \<^verbatim>\<open>i = 0\<close> followed by the loop proper, which reads and writes the global
  \<^verbatim>\<open>i\<close>. A counter that holds no number fails the comparison.
\<close>

function add_loop :: "aztec_note list \<Rightarrow> int \<Rightarrow> 'z world_scheme \<Rightarrow> int \<times> 'z world_scheme" where
  "add_loop notes acc s =
     (case global_i s of
        None \<Rightarrow> (acc, s)
      | Some n \<Rightarrow>
          if n < length notes
          then add_loop notes (acc + k (notes ! n)) (s\<lparr>global_i := Some (n + 1)\<rparr>)
          else (acc, s))"
  by pat_completeness auto
termination
  by (relation "measure (\<lambda>(notes, acc, s).
        case global_i s of None \<Rightarrow> 0 | Some n \<Rightarrow> length notes - n)") auto

function sub_loop :: "aztec_note list \<Rightarrow> int \<Rightarrow> 'z world_scheme \<Rightarrow> int \<times> 'z world_scheme" where
  "sub_loop notes acc s =
     (case global_i s of
        None \<Rightarrow> (acc, s)
      | Some n \<Rightarrow>
          if n < length notes
          then sub_loop notes (acc - k (notes ! n)) (s\<lparr>global_i := Some (n + 1)\<rparr>)
          else (acc, s))"
  by pat_completeness auto
termination
  by (relation "measure (\<lambda>(notes, acc, s).
        case global_i s of None \<Rightarrow> 0 | Some n \<Rightarrow> length notes - n)") auto

section \<open>logNoteEvents\<close>

text \<open>The loop body: \<open>toPrint\<close> is the object that is printed, as its list of properties.\<close>

definition log_body :: "log_entry \<Rightarrow> 'z world_scheme \<Rightarrow> 'z world_scheme" where
  "log_body e s =
     (let toPrint = [(''event'', event e)] in
      if event e = ''CreateNote'' \<or> event e = ''DestroyNote''
      then s\<lparr>trace := trace s @
             [ConsoleLog (LJson (toPrint @ [(''owner'', owner (args e))]
                                         @ [(''hash'', noteHash (args e))]))]\<rparr>
      else s)"

function log_loop :: "log_entry list \<Rightarrow> 'z world_scheme \<Rightarrow> 'z world_scheme" where
  "log_loop ls s =
     (case global_i s of
        None \<Rightarrow> s
      | Some n \<Rightarrow>
          if n < length ls
          then log_loop ls ((log_body (ls ! n) s)\<lparr>global_i := Some (n + 1)\<rparr>)
          else s)"
  by pat_completeness auto
termination
  by (relation "measure (\<lambda>(ls, s).
        case global_i s of None \<Rightarrow> 0 | Some n \<Rightarrow> length ls - n)") auto

definition logNoteEvents :: "log_entry list \<Rightarrow> 'z world_scheme \<Rightarrow> 'z world_scheme" where
  "logNoteEvents ls s = log_loop ls (s\<lparr>global_i := Some 0\<rparr>)"

section \<open>The transaction helpers\<close>

definition js_lift :: "('s \<Rightarrow> 's) \<Rightarrow> ('s, unit) js" where
  "js_lift f = (\<lambda>s. (Inr (), f s))"

text \<open>
  \<^verbatim>\<open>mintConfidentialAsset\<close>, up to the construction of the proof: the total of the
  notes to mint, the two counter notes, and the \<^verbatim>\<open>MintProof\<close> built from them.
\<close>

definition mint_proof_built ::
  "aztec \<Rightarrow> aztec_note list \<Rightarrow> aztecAccount \<Rightarrow> txOptions \<Rightarrow> 'z world_scheme
     \<Rightarrow> (int \<times> mint_proof) \<times> 'z world_scheme" where
  "mint_proof_built lib notes aztecAccount txo s =
     (let totalMintedValue = 0;
          (totalMintedValue, s1) = add_loop notes totalMintedValue (s\<lparr>global_i := Some 0\<rparr>);
          zeroMintCounterNote = createZeroValueNote lib;
          newMintCounterNote = create lib (publicKey aztecAccount) totalMintedValue;
          adjustedNotes = map (\<lambda>x. x) notes;
          sender = tx_from txo
      in ((totalMintedValue,
           MintProof zeroMintCounterNote newMintCounterNote adjustedNotes sender), s1))"


text \<open>
  \<^verbatim>\<open>confidentialTransfer\<close>, up to the construction of the proof: \<open>kPublic\<close> starts at 0,
  loses every output value, then gains every input value.
\<close>

definition transfer_proof_built ::
  "aztec_note list \<Rightarrow> aztec_note list \<Rightarrow> address \<Rightarrow> txOptions \<Rightarrow> 'z world_scheme
     \<Rightarrow> (int \<times> joinsplit_proof) \<times> 'z world_scheme" where
  "transfer_proof_built inputNotes outputNotes publicOwner txo s =
     (let kPublic = 0;
          (kPublic, s1) = sub_loop outputNotes kPublic (s\<lparr>global_i := Some 0\<rparr>);
          (kPublic, s2) = add_loop inputNotes kPublic (s1\<lparr>global_i := Some 0\<rparr>)
      in ((kPublic, JoinSplitProof inputNotes outputNotes (tx_from txo) kPublic publicOwner), s2))"


text \<open>\<^verbatim>\<open>shieldsERC20toZkAsset\<close> repeats the two loops and the proof construction.\<close>

definition shield_proof_built ::
  "aztec_note list \<Rightarrow> aztec_note list \<Rightarrow> address \<Rightarrow> txOptions \<Rightarrow> 'z world_scheme
     \<Rightarrow> (int \<times> joinsplit_proof) \<times> 'z world_scheme" where
  "shield_proof_built inputNotes outputNotes publicOwner txo s =
     (let kPublic = 0;
          (kPublic, s1) = sub_loop outputNotes kPublic (s\<lparr>global_i := Some 0\<rparr>);
          (kPublic, s2) = add_loop inputNotes kPublic (s1\<lparr>global_i := Some 0\<rparr>)
      in ((kPublic, JoinSplitProof inputNotes outputNotes (tx_from txo) kPublic publicOwner), s2))"

text \<open>
  The approval is awaited outside the \<^verbatim>\<open>try\<close>: if it is rejected the exception leaves
  the function and the transfer is never submitted.
\<close>

definition shieldsERC20toZkAsset ::
  "aztec \<Rightarrow> chain \<Rightarrow> aztec_note list \<Rightarrow> string list \<Rightarrow> aztec_note list \<Rightarrow> contract_instance
     \<Rightarrow> contract_instance \<Rightarrow> address \<Rightarrow> txOptions \<Rightarrow> ('z world_scheme, unit) js" where
  "shieldsERC20toZkAsset lib ch inputNotes inputNoteOwners outputNotes zkAsset ace
       publicOwner txo = (\<lambda>s.
     let ((kPublic, proof), s2) = shield_proof_built inputNotes outputNotes publicOwner txo s;
         proofData = encodeABI lib proof (address zkAsset);
         signatures = constructSignatures lib proof (address zkAsset) inputNoteOwners
     in js_then
          (await_send ch ace (PublicApprove (address zkAsset) (hash lib proof) (- kPublic)) txo)
          (try_catch
             (js_bind (await_send ch zkAsset
                         (ConfidentialTransfer (JOIN_SPLIT_PROOF lib) proofData signatures) txo)
                (\<lambda>receipt. js_lift (logNoteEvents (logs receipt))))
             (\<lambda>error.
                js_then (console_log (LStrErr ''deposit failed: '' error))
                        (process_exit (- 1))))
          s2)"

section \<open>instantiate\<close>

text \<open>
  The local variables of \<^verbatim>\<open>instantiate\<close>: the eight artifact handles, undefined until
  read, and the \<^verbatim>\<open>instances\<close> object, which gains one property per deployment.
\<close>

record frame = world +
  ACE :: "schema option"
  JOINSPLIT :: "schema option"
  JOINSPLIT_FLUID :: "schema option"
  ERC20_MINTABLE :: "schema option"
  BASE_FACTORY :: "schema option"
  ADJUSTABLE_FACTORY :: "schema option"
  ZKASSET_MINTABLE :: "schema option"
  ZKASSET :: "schema option"
  instances :: "string \<rightharpoonup> contract_instance"

definition new_frame :: "world \<Rightarrow> frame" where
  "new_frame w =
     \<lparr>trace = trace w, global_i = global_i w,
      ACE = None, JOINSPLIT = None, JOINSPLIT_FLUID = None, ERC20_MINTABLE = None,
      BASE_FACTORY = None, ADJUSTABLE_FACTORY = None, ZKASSET_MINTABLE = None, ZKASSET = None,
      instances = Map.empty\<rparr>"

definition leave_frame :: "frame \<Rightarrow> world" where
  "leave_frame s = \<lparr>trace = trace s, global_i = global_i s\<rparr>"

text \<open>
  Reading a property of a variable that is still undefined throws a \<^verbatim>\<open>TypeError\<close>:
  \<^verbatim>\<open>ACE.new\<close> when no artifact was read, \<^verbatim>\<open>instances.ace.address\<close> when nothing was
  deployed.
\<close>

definition member_of :: "('s \<Rightarrow> 'a option) \<Rightarrow> ('s, 'a) js" where
  "member_of var = (\<lambda>s. case var s of None \<Rightarrow> js_throw TypeError s | Some v \<Rightarrow> js_return v s)"

definition instance_of :: "string \<Rightarrow> (frame, contract_instance) js" where
  "instance_of name = member_of (\<lambda>s. instances s name)"

definition instance_address :: "string \<Rightarrow> (frame, address) js" where
  "instance_address name = js_bind (instance_of name) (\<lambda>c. js_return (address c))"

definition set_instance :: "string \<Rightarrow> contract_instance \<Rightarrow> (frame, unit) js" where
  "set_instance name v = js_lift (\<lambda>s. s\<lparr>instances := (instances s)(name \<mapsto> v)\<rparr>)"

definition await_readContract :: "chain \<Rightarrow> string \<Rightarrow> ('z world_scheme, schema) js" where
  "await_readContract besu name =
     await (ReadContract name) Artifact (\<lambda>h. readContract besu h name)"

definition await_new ::
  "chain \<Rightarrow> schema \<Rightarrow> arg list \<Rightarrow> txOptions \<Rightarrow> ('z world_scheme, contract_instance) js" where
  "await_new besu c as txo = await (New c as txo) Deployed (\<lambda>h. new besu h c as txo)"

text \<open>Lines 46 to 53, the body of the first \<^verbatim>\<open>try\<close>.\<close>

definition read_schemas :: "chain \<Rightarrow> (frame, unit) js" where
  "read_schemas besu =
     js_bind (await_readContract besu ''ACE.json'') (\<lambda>v.
     js_then (js_lift (\<lambda>s. s\<lparr>ACE := Some v\<rparr>))
    (js_bind (await_readContract besu ''JoinSplit.json'') (\<lambda>v.
     js_then (js_lift (\<lambda>s. s\<lparr>JOINSPLIT := Some v\<rparr>))
    (js_bind (await_readContract besu ''JoinSplitFluid.json'') (\<lambda>v.
     js_then (js_lift (\<lambda>s. s\<lparr>JOINSPLIT_FLUID := Some v\<rparr>))
    (js_bind (await_readContract besu ''ERC20Mintable.json'') (\<lambda>v.
     js_then (js_lift (\<lambda>s. s\<lparr>ERC20_MINTABLE := Some v\<rparr>))
    (js_bind (await_readContract besu ''FactoryBase201907.json'') (\<lambda>v.
     js_then (js_lift (\<lambda>s. s\<lparr>BASE_FACTORY := Some v\<rparr>))
    (js_bind (await_readContract besu ''FactoryAdjustable201907.json'') (\<lambda>v.
     js_then (js_lift (\<lambda>s. s\<lparr>ADJUSTABLE_FACTORY := Some v\<rparr>))
    (js_bind (await_readContract besu ''ZkAssetMintable.json'') (\<lambda>v.
     js_then (js_lift (\<lambda>s. s\<lparr>ZKASSET_MINTABLE := Some v\<rparr>))
    (js_bind (await_readContract besu ''ZkAsset.json'') (\<lambda>v.
     js_lift (\<lambda>s. s\<lparr>ZKASSET := Some v\<rparr>))))))))))))))))"

text \<open>Lines 60 to 65, the body of the second \<^verbatim>\<open>try\<close>.\<close>

definition deploy_engine :: "chain \<Rightarrow> txOptions \<Rightarrow> (frame, unit) js" where
  "deploy_engine besu txo =
     js_bind (member_of ACE) (\<lambda>c.
     js_bind (await_new besu c [] txo) (\<lambda>v.
     js_then (set_instance ''ace'' v)
    (js_bind (member_of JOINSPLIT) (\<lambda>c.
     js_bind (await_new besu c [] txo) (\<lambda>v.
     js_then (set_instance ''joinSplit'' v)
    (js_bind (member_of JOINSPLIT_FLUID) (\<lambda>c.
     js_bind (await_new besu c [] txo) (\<lambda>v.
     js_then (set_instance ''joinSplitFluid'' v)
    (js_bind (member_of ERC20_MINTABLE) (\<lambda>c.
     js_bind (await_new besu c [] txo) (\<lambda>v.
     js_then (set_instance ''erc20'' v)
    (js_bind (member_of BASE_FACTORY) (\<lambda>c.
     js_bind (instance_address ''ace'') (\<lambda>a.
     js_bind (await_new besu c [Addr a] txo) (\<lambda>v.
     js_then (set_instance ''baseFactory'' v)
    (js_bind (member_of ADJUSTABLE_FACTORY) (\<lambda>c.
     js_bind (instance_address ''ace'') (\<lambda>a.
     js_bind (await_new besu c [Addr a] txo) (\<lambda>v.
     set_instance ''adjustableFactory'' v)))))))))))))))))))"

text \<open>Lines 72 to 74, the body of the third \<^verbatim>\<open>try\<close>.\<close>

definition set_factories :: "chain \<Rightarrow> txOptions \<Rightarrow> (frame, unit) js" where
  "set_factories besu txo =
     js_bind (instance_of ''ace'') (\<lambda>ace.
     js_bind (instance_address ''baseFactory'') (\<lambda>a.
     js_then (await_send besu ace (SetFactory (1 * 256 ^ 2 + 1 * 256 ^ 1 + 1 * 256 ^ 0) a) txo)
    (js_bind (instance_of ''ace'') (\<lambda>ace.
     js_bind (instance_address ''adjustableFactory'') (\<lambda>a.
     js_then (await_send besu ace (SetFactory (1 * 256 ^ 2 + 1 * 256 ^ 1 + 2 * 256 ^ 0) a) txo)
    (js_bind (instance_of ''ace'') (\<lambda>ace.
     js_bind (instance_address ''adjustableFactory'') (\<lambda>a.
     js_then (await_send besu ace (SetFactory (1 * 256 ^ 2 + 1 * 256 ^ 1 + 3 * 256 ^ 0) a) txo)
             (js_return ())))))))))"

text \<open>Lines 81 to 94, the body of the fourth \<^verbatim>\<open>try\<close>.\<close>

definition deploy_zk_assets :: "chain \<Rightarrow> aztec \<Rightarrow> txOptions \<Rightarrow> (frame, unit) js" where
  "deploy_zk_assets besu lib txo =
     js_bind (member_of ZKASSET_MINTABLE) (\<lambda>c.
     js_bind (instance_address ''ace'') (\<lambda>a.
     js_bind (instance_address ''erc20'') (\<lambda>t.
     js_bind (await_new besu c [Addr a, Addr t, Num (ERC20_SCALING_FACTOR lib), Num 0, Arr []] txo)
       (\<lambda>v.
     js_then (set_instance ''zkAssetMintable'' v)
    (js_bind (member_of ZKASSET) (\<lambda>c.
     js_bind (instance_address ''ace'') (\<lambda>a.
     js_bind (instance_address ''erc20'') (\<lambda>t.
     js_bind (await_new besu c [Addr a, Addr t, Num 1] txo) (\<lambda>v.
     set_instance ''zkAsset'' v)))))))))"

text \<open>Lines 100 to 102, outside any \<^verbatim>\<open>try\<close>.\<close>

definition configure_engine :: "chain \<Rightarrow> aztec \<Rightarrow> txOptions \<Rightarrow> (frame, unit) js" where
  "configure_engine besu lib txo =
     js_bind (instance_of ''ace'') (\<lambda>ace.
     js_then (await_send besu ace (SetCommonReferenceString (CRS lib)) txo)
    (js_bind (instance_of ''ace'') (\<lambda>ace.
     js_bind (instance_address ''joinSplit'') (\<lambda>a.
     js_then (await_send besu ace (SetProof (JOIN_SPLIT_PROOF lib) a) txo)
    (js_bind (instance_of ''ace'') (\<lambda>ace.
     js_bind (instance_address ''joinSplitFluid'') (\<lambda>a.
     js_then (await_send besu ace (SetProof (MINT_PROOF lib) a) txo)
             (js_return ()))))))))"

text \<open>Lines 104 to 112.\<close>

definition report_addresses :: "(frame, unit) js" where
  "report_addresses =
     js_bind (instance_address ''ace'') (\<lambda>a.
     js_then (console_log (LStr (''deployed ace at:                '' @ a)))
    (js_bind (instance_address ''joinSplit'') (\<lambda>a.
     js_then (console_log (LStr (''deployed joinSplit at:          '' @ a)))
    (js_bind (instance_address ''joinSplitFluid'') (\<lambda>a.
     js_then (console_log (LStr (''deployed joinSplitFluid at:     '' @ a)))
    (js_bind (instance_address ''erc20'') (\<lambda>a.
     js_then (console_log (LStr (''deployed erc20 at:              '' @ a)))
    (js_bind (instance_address ''baseFactory'') (\<lambda>a.
     js_then (console_log (LStr (''deployed baseFactory at:        '' @ a)))
    (js_bind (instance_address ''adjustableFactory'') (\<lambda>a.
     js_then (console_log (LStr (''deployed adjustableFactory at:  '' @ a)))
    (js_bind (instance_address ''zkAssetMintable'') (\<lambda>a.
     js_then (console_log (LStr (''deployed zkAssetMintable at:    '' @ a)))
    (js_bind (instance_address ''zkAsset'') (\<lambda>a.
     js_then (console_log (LStr (''deployed zkAsset at:            '' @ a)))
    (console_log (LStr lineBreak)))))))))))))))))"

text \<open>
  Lines 45 to 97: the four \<^verbatim>\<open>try\<close> statements, each with the handler
  \<^verbatim>\<open>console.log(e)\<close>.
\<close>

definition log_error :: "jserror \<Rightarrow> ('z world_scheme, unit) js" where
  "log_error e = console_log (LErr e)"

definition deployment_steps :: "chain \<Rightarrow> aztec \<Rightarrow> txOptions \<Rightarrow> (frame, unit) js" where
  "deployment_steps besu lib txo =
     js_then (try_catch (read_schemas besu) log_error)
    (js_then (try_catch (deploy_engine besu txo) log_error)
    (js_then (try_catch (set_factories besu txo) log_error)
             (try_catch (deploy_zk_assets besu lib txo) log_error)))"

definition instantiate_body ::
  "chain \<Rightarrow> aztec \<Rightarrow> txOptions \<Rightarrow> (frame, string \<rightharpoonup> contract_instance) js" where
  "instantiate_body besu lib txo =
     js_then (console_log (LStr lineBreak))
    (js_then (console_log (LStr ''deploying AZTEC contracts...''))
    (js_then (deployment_steps besu lib txo)
    (js_then (configure_engine besu lib txo)
    (js_then report_addresses
             (\<lambda>s. (Inr (instances s), s))))))"

definition instantiate ::
  "chain \<Rightarrow> aztec \<Rightarrow> txOptions \<Rightarrow> (world, string \<rightharpoonup> contract_instance) js" where
  "instantiate besu lib txo = (\<lambda>w.
     case instantiate_body besu lib txo (new_frame w) of (r, s) \<Rightarrow> (r, leave_frame s))"

section \<open>Reading a trace\<close>

text \<open>The deployments among the events of a run, whatever their artifact and arguments.\<close>

fun is_deployment :: "event \<Rightarrow> bool" where
  "is_deployment (Await (New c as txo) r) = True"
| "is_deployment _ = False"

text \<open>
  The deployments whose constructor receives two addresses first: the asset wrappers,
  built on the engine and the token. The six other deployments receive no address or
  the engine's address alone.
\<close>

fun asset_deployment :: "event \<Rightarrow> bool" where
  "asset_deployment (Await (New c (Addr a # Addr t # as) txo) r) = True"
| "asset_deployment _ = False"

fun is_readContract :: "event \<Rightarrow> bool" where
  "is_readContract (Await (ReadContract n) r) = True"
| "is_readContract _ = False"

fun is_setFactory :: "event \<Rightarrow> bool" where
  "is_setFactory (Await (Send c (SetFactory key a) txo) r) = True"
| "is_setFactory _ = False"

text \<open>The calls of lines 100 to 102.\<close>

fun configuration_call :: "call \<Rightarrow> bool" where
  "configuration_call (Send c (SetCommonReferenceString crs) txo) = True"
| "configuration_call (Send c (SetProof p a) txo) = True"
| "configuration_call _ = False"

fun is_configuration :: "event \<Rightarrow> bool" where
  "is_configuration (Await c r) = configuration_call c"
| "is_configuration _ = False"



text \<open>
  Two devices for the proofs: the shapes the three registrations can take, and a
  computation that only appends events satisfying \<open>P\<close>.
\<close>

definition registration_events ::
  "contract_instance \<Rightarrow> contract_instance \<Rightarrow> contract_instance \<Rightarrow> txOptions \<Rightarrow> event list \<Rightarrow> bool" where
  "registration_events a b f txo regs =
     ((\<exists>r1 r2 r3. regs =
              [Await (Send a (SetFactory 65793 (address b)) txo) (Fulfilled (Receipt r1)),
               Await (Send a (SetFactory 65794 (address f)) txo) (Fulfilled (Receipt r2)),
               Await (Send a (SetFactory 65795 (address f)) txo) (Fulfilled (Receipt r3))])
        \<or> (\<exists>e. regs =
              [Await (Send a (SetFactory 65793 (address b)) txo) (Rejected e),
               ConsoleLog (LErr e)])
        \<or> (\<exists>r1 e. regs =
              [Await (Send a (SetFactory 65793 (address b)) txo) (Fulfilled (Receipt r1)),
               Await (Send a (SetFactory 65794 (address f)) txo) (Rejected e),
               ConsoleLog (LErr e)])
        \<or> (\<exists>r1 r2 e. regs =
              [Await (Send a (SetFactory 65793 (address b)) txo) (Fulfilled (Receipt r1)),
               Await (Send a (SetFactory 65794 (address f)) txo) (Fulfilled (Receipt r2)),
               Await (Send a (SetFactory 65795 (address f)) txo) (Rejected e),
               ConsoleLog (LErr e)]))"

definition emits :: "(event list \<Rightarrow> bool) \<Rightarrow> ('z world_scheme, 'a) js \<Rightarrow> bool" where
  "emits P m = (\<forall>s. \<exists>evs. trace (snd (m s)) = trace s @ evs \<and> P evs)"

section \<open>A sample environment\<close>

text \<open>
  Collaborators that never fail, and library operations with fixed answers, on which
  the theorems below are instantiated.
\<close>

definition ok_chain :: chain where
  "ok_chain = \<lparr>readContract = (\<lambda>h n. Inr (Schema n)),
     new = (\<lambda>h c as t. case c of Schema n \<Rightarrow> Inr \<lparr>address = ''0x'' @ n\<rparr>),
     send = (\<lambda>h i m t. Inr \<lparr>logs = []\<rparr>)\<rparr>"

definition lib0 :: aztec where
  "lib0 = \<lparr>ERC20_SCALING_FACTOR = 1, JOIN_SPLIT_PROOF = 65793, MINT_PROOF = 66049, CRS = [],
     createZeroValueNote = \<lparr>k = 0, noteKey = ''''\<rparr>,
     create = (\<lambda>pk v. \<lparr>k = v, noteKey = pk\<rparr>),
     mint_encodeABI = (\<lambda>p. ''mint''), encodeABI = (\<lambda>p a. ''js''),
     constructSignatures = (\<lambda>p a os. ''sig''), hash = (\<lambda>p. ''hash'')\<rparr>"

definition w0 :: world where
  "w0 = \<lparr>trace = [], global_i = None\<rparr>"

definition tx0 :: txOptions where
  "tx0 = \<lparr>tx_from = ''0xSender''\<rparr>"

text \<open>What \<^verbatim>\<open>instantiate\<close> returns and leaves behind in that environment.\<close>

definition ok_registry :: "string \<rightharpoonup> contract_instance" where
  "ok_registry =
     [''ace'' \<mapsto> \<lparr>address = ''0xACE.json''\<rparr>,
      ''joinSplit'' \<mapsto> \<lparr>address = ''0xJoinSplit.json''\<rparr>,
      ''joinSplitFluid'' \<mapsto> \<lparr>address = ''0xJoinSplitFluid.json''\<rparr>,
      ''erc20'' \<mapsto> \<lparr>address = ''0xERC20Mintable.json''\<rparr>,
      ''baseFactory'' \<mapsto> \<lparr>address = ''0xFactoryBase201907.json''\<rparr>,
      ''adjustableFactory'' \<mapsto> \<lparr>address = ''0xFactoryAdjustable201907.json''\<rparr>,
      ''zkAssetMintable'' \<mapsto> \<lparr>address = ''0xZkAssetMintable.json''\<rparr>,
      ''zkAsset'' \<mapsto> \<lparr>address = ''0xZkAsset.json''\<rparr>]"

definition ok_world :: world where
  "ok_world = \<lparr>trace =
     [ConsoleLog (LStr lineBreak),
      ConsoleLog (LStr ''deploying AZTEC contracts...''),
      Await (ReadContract ''ACE.json'') (Fulfilled (Artifact (Schema ''ACE.json''))),
      Await (ReadContract ''JoinSplit.json'') (Fulfilled (Artifact (Schema ''JoinSplit.json''))),
      Await (ReadContract ''JoinSplitFluid.json'') (Fulfilled (Artifact (Schema ''JoinSplitFluid.json''))),
      Await (ReadContract ''ERC20Mintable.json'') (Fulfilled (Artifact (Schema ''ERC20Mintable.json''))),
      Await (ReadContract ''FactoryBase201907.json'') (Fulfilled (Artifact (Schema ''FactoryBase201907.json''))),
      Await (ReadContract ''FactoryAdjustable201907.json'') (Fulfilled (Artifact (Schema ''FactoryAdjustable201907.json''))),
      Await (ReadContract ''ZkAssetMintable.json'') (Fulfilled (Artifact (Schema ''ZkAssetMintable.json''))),
      Await (ReadContract ''ZkAsset.json'') (Fulfilled (Artifact (Schema ''ZkAsset.json''))),
      Await (New (Schema ''ACE.json'') [] tx0) (Fulfilled (Deployed \<lparr>address = ''0xACE.json''\<rparr>)),
      Await (New (Schema ''JoinSplit.json'') [] tx0) (Fulfilled (Deployed \<lparr>address = ''0xJoinSplit.json''\<rparr>)),
      Await (New (Schema ''JoinSplitFluid.json'') [] tx0) (Fulfilled (Deployed \<lparr>address = ''0xJoinSplitFluid.json''\<rparr>)),
      Await (New (Schema ''ERC20Mintable.json'') [] tx0) (Fulfilled (Deployed \<lparr>address = ''0xERC20Mintable.json''\<rparr>)),
      Await (New (Schema ''FactoryBase201907.json'') [Addr ''0xACE.json''] tx0) (Fulfilled (Deployed \<lparr>address = ''0xFactoryBase201907.json''\<rparr>)),
      Await (New (Schema ''FactoryAdjustable201907.json'') [Addr ''0xACE.json''] tx0) (Fulfilled (Deployed \<lparr>address = ''0xFactoryAdjustable201907.json''\<rparr>)),
      Await (Send \<lparr>address = ''0xACE.json''\<rparr> (SetFactory 65793 ''0xFactoryBase201907.json'') tx0) (Fulfilled (Receipt \<lparr>logs = []\<rparr>)),
      Await (Send \<lparr>address = ''0xACE.json''\<rparr> (SetFactory 65794 ''0xFactoryAdjustable201907.json'') tx0) (Fulfilled (Receipt \<lparr>logs = []\<rparr>)),
      Await (Send \<lparr>address = ''0xACE.json''\<rparr> (SetFactory 65795 ''0xFactoryAdjustable201907.json'') tx0) (Fulfilled (Receipt \<lparr>logs = []\<rparr>)),
      Await (New (Schema ''ZkAssetMintable.json'') [Addr ''0xACE.json'', Addr ''0xERC20Mintable.json'', Num 1, Num 0, Arr []] tx0) (Fulfilled (Deployed \<lparr>address = ''0xZkAssetMintable.json''\<rparr>)),
      Await (New (Schema ''ZkAsset.json'') [Addr ''0xACE.json'', Addr ''0xERC20Mintable.json'', Num 1] tx0) (Fulfilled (Deployed \<lparr>address = ''0xZkAsset.json''\<rparr>)),
      Await (Send \<lparr>address = ''0xACE.json''\<rparr> (SetCommonReferenceString []) tx0) (Fulfilled (Receipt \<lparr>logs = []\<rparr>)),
      Await (Send \<lparr>address = ''0xACE.json''\<rparr> (SetProof 65793 ''0xJoinSplit.json'') tx0) (Fulfilled (Receipt \<lparr>logs = []\<rparr>)),
      Await (Send \<lparr>address = ''0xACE.json''\<rparr> (SetProof 66049 ''0xJoinSplitFluid.json'') tx0) (Fulfilled (Receipt \<lparr>logs = []\<rparr>)),
      ConsoleLog (LStr ''deployed ace at:                0xACE.json''),
      ConsoleLog (LStr ''deployed joinSplit at:          0xJoinSplit.json''),
      ConsoleLog (LStr ''deployed joinSplitFluid at:     0xJoinSplitFluid.json''),
      ConsoleLog (LStr ''deployed erc20 at:              0xERC20Mintable.json''),
      ConsoleLog (LStr ''deployed baseFactory at:        0xFactoryBase201907.json''),
      ConsoleLog (LStr ''deployed adjustableFactory at:  0xFactoryAdjustable201907.json''),
      ConsoleLog (LStr ''deployed zkAssetMintable at:    0xZkAssetMintable.json''),
      ConsoleLog (LStr ''deployed zkAsset at:            0xZkAsset.json''),
      ConsoleLog (LStr lineBreak)],
     global_i = None\<rparr>"


definition reverting_chain :: chain where
  "reverting_chain = ok_chain\<lparr>send := (\<lambda>h i m t.
     case m of
       SetProof p a \<Rightarrow> Inl (Failure ''revert'')
     | ConfidentialMint p d \<Rightarrow> Inl (Failure ''revert'')
     | ConfidentialTransfer p d g \<Rightarrow> Inl (Failure ''revert'')
     | _ \<Rightarrow> Inr \<lparr>logs = []\<rparr>)\<rparr>"

section \<open>Properties of the loops\<close>

declare add_loop.simps [simp del] sub_loop.simps [simp del] log_loop.simps [simp del]

lemma add_loop_sum:
  "global_i s = Some n \<Longrightarrow>
   add_loop notes acc s =
     (acc + sum_list (map k (drop n notes)), s\<lparr>global_i := Some (max n (length notes))\<rparr>)"
proof (induction "length notes - n" arbitrary: n acc s)
  case 0
  then show ?case by (subst add_loop.simps) (simp add: max_def)
next
  case (Suc d)
  then have lt: "n < length notes" by simp
  have d: "d = length notes - (n + 1)" using Suc.hyps(2) by simp
  have step: "add_loop notes acc s
      = add_loop notes (acc + k (notes ! n)) (s\<lparr>global_i := Some (n + 1)\<rparr>)"
    using Suc.prems lt by (subst add_loop.simps) simp
  show ?case
    using Suc.hyps(1)[OF d, of "s\<lparr>global_i := Some (n + 1)\<rparr>" "acc + k (notes ! n)"] lt
    by (simp add: step Cons_nth_drop_Suc[symmetric] max_def)
qed

lemma sub_loop_sum:
  "global_i s = Some n \<Longrightarrow>
   sub_loop notes acc s =
     (acc - sum_list (map k (drop n notes)), s\<lparr>global_i := Some (max n (length notes))\<rparr>)"
proof (induction "length notes - n" arbitrary: n acc s)
  case 0
  then show ?case by (subst sub_loop.simps) (simp add: max_def)
next
  case (Suc d)
  then have lt: "n < length notes" by simp
  have d: "d = length notes - (n + 1)" using Suc.hyps(2) by simp
  have step: "sub_loop notes acc s
      = sub_loop notes (acc - k (notes ! n)) (s\<lparr>global_i := Some (n + 1)\<rparr>)"
    using Suc.prems lt by (subst sub_loop.simps) simp
  show ?case
    using Suc.hyps(1)[OF d, of "s\<lparr>global_i := Some (n + 1)\<rparr>" "acc - k (notes ! n)"] lt
    by (simp add: step Cons_nth_drop_Suc[symmetric] max_def)
qed

lemma log_loop_trace:
  "global_i s = Some n \<Longrightarrow>
   log_loop ls s =
     s\<lparr>trace := trace s @
          map (\<lambda>e. ConsoleLog (LJson [(''event'', event e), (''owner'', owner (args e)),
                                       (''hash'', noteHash (args e))]))
              (filter (\<lambda>e. event e = ''CreateNote'' \<or> event e = ''DestroyNote'') (drop n ls)),
       global_i := Some (max n (length ls))\<rparr>"
proof (induction "length ls - n" arbitrary: n s)
  case 0
  then show ?case by (subst log_loop.simps) (simp add: max_def)
next
  case (Suc d)
  then have lt: "n < length ls" by simp
  have d: "d = length ls - (n + 1)" using Suc.hyps(2) by simp
  have step: "log_loop ls s = log_loop ls ((log_body (ls ! n) s)\<lparr>global_i := Some (n + 1)\<rparr>)"
    using Suc.prems lt by (subst log_loop.simps) simp
  show ?case
    using Suc.hyps(1)[OF d, of "(log_body (ls ! n) s)\<lparr>global_i := Some (n + 1)\<rparr>"] lt
    by (simp add: step Cons_nth_drop_Suc[symmetric] max_def log_body_def)
qed

lemma logNoteEvents_eq:
  "logNoteEvents ls s =
     s\<lparr>trace := trace s @
          map (\<lambda>e. ConsoleLog (LJson [(''event'', event e), (''owner'', owner (args e)),
                                       (''hash'', noteHash (args e))]))
              (filter (\<lambda>e. event e = ''CreateNote'' \<or> event e = ''DestroyNote'') ls),
       global_i := Some (length ls)\<rparr>"
  by (simp add: logNoteEvents_def log_loop_trace)

text \<open>
  Claim C6. For every list of log entries, \<^verbatim>\<open>logNoteEvents\<close> prints one record per entry
  whose event name is \<^verbatim>\<open>CreateNote\<close> or \<^verbatim>\<open>DestroyNote\<close>, made of the event name, the
  owner and the note hash, prints nothing for any other entry, and prints in the order of
  the list: what the call adds to the trace is the list of matching entries, each turned
  into its record.
\<close>

theorem logNoteEvents_records:
  "emitted s (logNoteEvents ls s) =
     map (\<lambda>e. ConsoleLog (LJson [(''event'', event e), (''owner'', owner (args e)),
                                  (''hash'', noteHash (args e))]))
         (filter (\<lambda>e. event e = ''CreateNote'' \<or> event e = ''DestroyNote'') ls)"
  by (simp add: logNoteEvents_eq emitted_def)

lemma mint_proof_built_eq:
  "mint_proof_built lib notes acct txo s =
     ((sum_list (map k notes),
       MintProof (createZeroValueNote lib) (create lib (publicKey acct) (sum_list (map k notes)))
         notes (tx_from txo)),
      s\<lparr>global_i := Some (length notes)\<rparr>)"
  by (simp add: mint_proof_built_def add_loop_sum)

lemma transfer_proof_built_eq:
  "transfer_proof_built ins outs po txo s =
     ((sum_list (map k ins) - sum_list (map k outs),
       JoinSplitProof ins outs (tx_from txo) (sum_list (map k ins) - sum_list (map k outs)) po),
      s\<lparr>global_i := Some (length ins)\<rparr>)"
  by (simp add: transfer_proof_built_def add_loop_sum sub_loop_sum)

lemma shield_proof_built_eq:
  "shield_proof_built ins outs po txo s =
     ((sum_list (map k ins) - sum_list (map k outs),
       JoinSplitProof ins outs (tx_from txo) (sum_list (map k ins) - sum_list (map k outs)) po),
      s\<lparr>global_i := Some (length ins)\<rparr>)"
  by (simp add: shield_proof_built_def add_loop_sum sub_loop_sum)

section \<open>Properties of the transaction helpers\<close>

lemmas js_defs = js_bind_def js_then_def js_return_def js_throw_def try_catch_def console_log_def
  process_exit_def await_def await_send_def js_lift_def


text \<open>
  Claim C10. The loop counter is global, yet the totals do not depend on what it held
  when a helper was entered: two runs on the same notes, started with any two values
  \<open>i1\<close> and \<open>i2\<close> of the counter, compute the same \<open>totalMintedValue\<close>, the same
  \<open>kPublic\<close> and the same proofs, and these are the sums over the note lists.
\<close>

theorem sums_independent_of_global_i:
  "fst (mint_proof_built lib notes aztecAccount txo (s\<lparr>global_i := i1\<rparr>))
     = fst (mint_proof_built lib notes aztecAccount txo (s\<lparr>global_i := i2\<rparr>))
   \<and> fst (fst (mint_proof_built lib notes aztecAccount txo (s\<lparr>global_i := i1\<rparr>)))
     = sum_list (map k notes)
   \<and> fst (transfer_proof_built inputNotes outputNotes publicOwner txo (s\<lparr>global_i := i1\<rparr>))
     = fst (transfer_proof_built inputNotes outputNotes publicOwner txo (s\<lparr>global_i := i2\<rparr>))
   \<and> fst (shield_proof_built inputNotes outputNotes publicOwner txo (s\<lparr>global_i := i1\<rparr>))
     = fst (shield_proof_built inputNotes outputNotes publicOwner txo (s\<lparr>global_i := i2\<rparr>))
   \<and> fst (fst (transfer_proof_built inputNotes outputNotes publicOwner txo (s\<lparr>global_i := i1\<rparr>)))
     = sum_list (map k inputNotes) - sum_list (map k outputNotes)
   \<and> fst (fst (shield_proof_built inputNotes outputNotes publicOwner txo (s\<lparr>global_i := i1\<rparr>)))
     = sum_list (map k inputNotes) - sum_list (map k outputNotes)"
  by (simp add: mint_proof_built_eq transfer_proof_built_eq shield_proof_built_eq)



text \<open>
  Claim C5. In every run of \<^verbatim>\<open>shieldsERC20toZkAsset\<close> the first external call is
  \<^verbatim>\<open>ace.publicApprove\<close> with the asset's address, the hash of the proof that was built and
  \<open>- kPublic\<close>. If it is rejected the exception leaves the function and nothing else
  happens; if it is fulfilled the next event is the \<^verbatim>\<open>confidentialTransfer\<close> submission.
  A \<^verbatim>\<open>confidentialTransfer\<close> is submitted nowhere else, so never before the approval has
  completed. Shielding into a single note of value 20 asks approval for 20 units, as the
  instance below shows.
\<close>

theorem shield_approval_precedes_transfer:
  "let kPublic = sum_list (map k inputNotes) - sum_list (map k outputNotes);
       jsproof = JoinSplitProof inputNotes outputNotes (tx_from txo) kPublic publicOwner;
       approval = Send ace (PublicApprove (address zkAsset) (hash lib jsproof) (- kPublic)) txo;
       approved = send besu (trace s) ace
                    (PublicApprove (address zkAsset) (hash lib jsproof) (- kPublic)) txo;
       transfer = Send zkAsset
                    (ConfidentialTransfer (JOIN_SPLIT_PROOF lib)
                       (encodeABI lib jsproof (address zkAsset))
                       (constructSignatures lib jsproof (address zkAsset) inputNoteOwners)) txo;
       run = shieldsERC20toZkAsset lib besu inputNotes inputNoteOwners outputNotes zkAsset ace
               publicOwner txo s;
       evs = emitted s (snd run)
   in take 1 evs = [Await approval (settled Receipt approved)]
    \<and> (\<forall>e. approved = Inl e \<longrightarrow> fst run = Inl (Thrown e) \<and> evs = [Await approval (Rejected e)])
    \<and> (\<forall>r. approved = Inr r \<longrightarrow>
          (\<exists>outcome. take 2 evs = [Await approval (Fulfilled (Receipt r)), Await transfer outcome]))
    \<and> (\<forall>n c p d g t r'. n < length evs \<and> evs ! n = Await (Send c (ConfidentialTransfer p d g) t) r'
          \<longrightarrow> n = 1 \<and> (\<exists>r. evs ! 0 = Await approval (Fulfilled (Receipt r))))"
  apply (simp add: Let_def shield_proof_built_eq shieldsERC20toZkAsset_def js_defs emitted_def
      logNoteEvents_eq settled_def split: sum.splits)
  apply (auto simp: nth_append nth_Cons split: nat.splits if_splits)
  done

theorem shield_approval_precedes_transfer_witness:
  "take 2 (emitted \<lparr>trace = [], global_i = None\<rparr>
      (snd (shieldsERC20toZkAsset lib0 ok_chain [] [] [\<lparr>k = 20, noteKey = ''a''\<rparr>]
              \<lparr>address = ''zk''\<rparr> \<lparr>address = ''ace''\<rparr> ''pub'' \<lparr>tx_from = ''me''\<rparr>
              \<lparr>trace = [], global_i = None\<rparr>)))
   = [Await (Send \<lparr>address = ''ace''\<rparr> (PublicApprove ''zk'' ''hash'' 20) \<lparr>tx_from = ''me''\<rparr>)
        (Fulfilled (Receipt \<lparr>logs = []\<rparr>)),
      Await (Send \<lparr>address = ''zk''\<rparr> (ConfidentialTransfer 65793 ''js'' ''sig'')
               \<lparr>tx_from = ''me''\<rparr>)
        (Fulfilled (Receipt \<lparr>logs = []\<rparr>))]"
  using shield_approval_precedes_transfer [of "[]" "[\<lparr>k = 20, noteKey = ''a''\<rparr>]"
      "\<lparr>tx_from = ''me''\<rparr>" "''pub''" "\<lparr>address = ''ace''\<rparr>" "\<lparr>address = ''zk''\<rparr>" lib0
      ok_chain "\<lparr>trace = [], global_i = None\<rparr>" "[]"]
  by (simp add: lib0_def ok_chain_def Let_def settled_def shieldsERC20toZkAsset_def js_defs
      shield_proof_built_eq emitted_def logNoteEvents_eq)

section \<open>Properties of instantiate\<close>

lemmas frame_defs = member_of_def instance_of_def instance_address_def set_instance_def
  await_readContract_def await_new_def log_error_def

lemma read_schemas_try:
  "\<exists>s'. try_catch (read_schemas besu) log_error s = (Inr (), s')
     \<and> instances s' = instances s \<and> global_i s' = global_i s
     \<and> ((\<exists>c1 c2 c3 c4 c5 c6 c7 c8.
            trace s' = trace s @
                   [Await (ReadContract ''ACE.json'') (Fulfilled (Artifact c1)),
                    Await (ReadContract ''JoinSplit.json'') (Fulfilled (Artifact c2)),
                    Await (ReadContract ''JoinSplitFluid.json'') (Fulfilled (Artifact c3)),
                    Await (ReadContract ''ERC20Mintable.json'') (Fulfilled (Artifact c4)),
                    Await (ReadContract ''FactoryBase201907.json'') (Fulfilled (Artifact c5)),
                    Await (ReadContract ''FactoryAdjustable201907.json'') (Fulfilled (Artifact c6)),
                    Await (ReadContract ''ZkAssetMintable.json'') (Fulfilled (Artifact c7)),
                    Await (ReadContract ''ZkAsset.json'') (Fulfilled (Artifact c8))]
            \<and> ACE s' = Some c1 \<and> JOINSPLIT s' = Some c2 \<and> JOINSPLIT_FLUID s' = Some c3
            \<and> ERC20_MINTABLE s' = Some c4 \<and> BASE_FACTORY s' = Some c5
            \<and> ADJUSTABLE_FACTORY s' = Some c6 \<and> ZKASSET_MINTABLE s' = Some c7
            \<and> ZKASSET s' = Some c8)
          \<or> ZKASSET s' = ZKASSET s)"
  by (simp add: read_schemas_def js_defs frame_defs settled_def Let_def split: sum.splits)

lemma deploy_engine_try:
  "\<exists>s'. try_catch (deploy_engine besu txo) log_error s = (Inr (), s')
     \<and> ZKASSET_MINTABLE s' = ZKASSET_MINTABLE s \<and> ZKASSET s' = ZKASSET s
     \<and> global_i s' = global_i s
     \<and> ((\<exists>c1 c2 c3 c4 c5 c6 i1 i2 i3 i4 i5 i6.
            trace s' = trace s @
                   [Await (New c1 [] txo) (Fulfilled (Deployed i1)),
                    Await (New c2 [] txo) (Fulfilled (Deployed i2)),
                    Await (New c3 [] txo) (Fulfilled (Deployed i3)),
                    Await (New c4 [] txo) (Fulfilled (Deployed i4)),
                    Await (New c5 [Addr (address i1)] txo) (Fulfilled (Deployed i5)),
                    Await (New c6 [Addr (address i1)] txo) (Fulfilled (Deployed i6))]
            \<and> ACE s = Some c1 \<and> JOINSPLIT s = Some c2 \<and> JOINSPLIT_FLUID s = Some c3
            \<and> ERC20_MINTABLE s = Some c4 \<and> BASE_FACTORY s = Some c5
            \<and> ADJUSTABLE_FACTORY s = Some c6
            \<and> instances s' = (instances s)(''ace'' \<mapsto> i1, ''joinSplit'' \<mapsto> i2,
                  ''joinSplitFluid'' \<mapsto> i3, ''erc20'' \<mapsto> i4, ''baseFactory'' \<mapsto> i5,
                  ''adjustableFactory'' \<mapsto> i6))
          \<or> (instances s' ''adjustableFactory'' = instances s ''adjustableFactory''
             \<and> instances s' ''zkAssetMintable'' = instances s ''zkAssetMintable''
             \<and> instances s' ''zkAsset'' = instances s ''zkAsset''))"
  by (simp add: deploy_engine_def js_defs frame_defs settled_def Let_def
      split: sum.splits option.splits)

lemma set_factories_try:
  "\<exists>s' regs. try_catch (set_factories besu txo) log_error s = (Inr (), s')
     \<and> instances s' = instances s \<and> ZKASSET_MINTABLE s' = ZKASSET_MINTABLE s
     \<and> ZKASSET s' = ZKASSET s \<and> global_i s' = global_i s
     \<and> trace s' = trace s @ regs
     \<and> (\<forall>a b f. instances s ''ace'' = Some a \<and> instances s ''baseFactory'' = Some b
            \<and> instances s ''adjustableFactory'' = Some f \<longrightarrow>
          (\<exists>r1 r2 r3. regs =
              [Await (Send a (SetFactory 65793 (address b)) txo) (Fulfilled (Receipt r1)),
               Await (Send a (SetFactory 65794 (address f)) txo) (Fulfilled (Receipt r2)),
               Await (Send a (SetFactory 65795 (address f)) txo) (Fulfilled (Receipt r3))])
        \<or> (\<exists>e. regs =
              [Await (Send a (SetFactory 65793 (address b)) txo) (Rejected e),
               ConsoleLog (LErr e)])
        \<or> (\<exists>r1 e. regs =
              [Await (Send a (SetFactory 65793 (address b)) txo) (Fulfilled (Receipt r1)),
               Await (Send a (SetFactory 65794 (address f)) txo) (Rejected e),
               ConsoleLog (LErr e)])
        \<or> (\<exists>r1 r2 e. regs =
              [Await (Send a (SetFactory 65793 (address b)) txo) (Fulfilled (Receipt r1)),
               Await (Send a (SetFactory 65794 (address f)) txo) (Fulfilled (Receipt r2)),
               Await (Send a (SetFactory 65795 (address f)) txo) (Rejected e),
               ConsoleLog (LErr e)]))"
  by (simp add: set_factories_def js_defs frame_defs settled_def Let_def
      split: sum.splits option.splits)

lemma deploy_zk_assets_try:
  "\<exists>s'. try_catch (deploy_zk_assets besu lib txo) log_error s = (Inr (), s')
     \<and> global_i s' = global_i s
     \<and> instances s' ''ace'' = instances s ''ace''
     \<and> instances s' ''joinSplit'' = instances s ''joinSplit''
     \<and> instances s' ''joinSplitFluid'' = instances s ''joinSplitFluid''
     \<and> instances s' ''erc20'' = instances s ''erc20''
     \<and> instances s' ''baseFactory'' = instances s ''baseFactory''
     \<and> instances s' ''adjustableFactory'' = instances s ''adjustableFactory''
     \<and> ((\<exists>c7 c8 a t i7 i8.
            trace s' = trace s @
              [Await (New c7 [Addr (address a), Addr (address t), Num (ERC20_SCALING_FACTOR lib),
                              Num 0, Arr []] txo) (Fulfilled (Deployed i7)),
               Await (New c8 [Addr (address a), Addr (address t), Num 1] txo)
                 (Fulfilled (Deployed i8))]
            \<and> ZKASSET_MINTABLE s = Some c7 \<and> ZKASSET s = Some c8
            \<and> instances s ''ace'' = Some a \<and> instances s ''erc20'' = Some t
            \<and> instances s' = (instances s)(''zkAssetMintable'' \<mapsto> i7, ''zkAsset'' \<mapsto> i8))
          \<or> instances s' ''zkAsset'' = instances s ''zkAsset'')"
  by (simp add: deploy_zk_assets_def js_defs frame_defs settled_def Let_def
      split: sum.splits option.splits)

lemma configure_engine_ok:
  assumes "configure_engine besu lib txo s = (Inr u, s')"
  shows "\<exists>a j f r1 r2 r3. instances s ''ace'' = Some a \<and> instances s ''joinSplit'' = Some j
     \<and> instances s ''joinSplitFluid'' = Some f
     \<and> instances s' = instances s \<and> global_i s' = global_i s
     \<and> trace s' = trace s @
          [Await (Send a (SetCommonReferenceString (CRS lib)) txo) (Fulfilled (Receipt r1)),
           Await (Send a (SetProof (JOIN_SPLIT_PROOF lib) (address j)) txo) (Fulfilled (Receipt r2)),
           Await (Send a (SetProof (MINT_PROOF lib) (address f)) txo) (Fulfilled (Receipt r3))]"
  using assms
  by (auto simp add: configure_engine_def js_defs frame_defs settled_def Let_def
      split: sum.splits option.splits)

lemma report_addresses_ok:
  assumes "report_addresses s = (Inr u, s')"
  shows "\<exists>i1 i2 i3 i4 i5 i6 i7 i8.
       instances s ''ace'' = Some i1 \<and> instances s ''joinSplit'' = Some i2
     \<and> instances s ''joinSplitFluid'' = Some i3 \<and> instances s ''erc20'' = Some i4
     \<and> instances s ''baseFactory'' = Some i5 \<and> instances s ''adjustableFactory'' = Some i6
     \<and> instances s ''zkAssetMintable'' = Some i7 \<and> instances s ''zkAsset'' = Some i8
     \<and> instances s' = instances s \<and> global_i s' = global_i s
     \<and> trace s' = trace s @
          [ConsoleLog (LStr (''deployed ace at:                '' @ address i1)),
           ConsoleLog (LStr (''deployed joinSplit at:          '' @ address i2)),
           ConsoleLog (LStr (''deployed joinSplitFluid at:     '' @ address i3)),
           ConsoleLog (LStr (''deployed erc20 at:              '' @ address i4)),
           ConsoleLog (LStr (''deployed baseFactory at:        '' @ address i5)),
           ConsoleLog (LStr (''deployed adjustableFactory at:  '' @ address i6)),
           ConsoleLog (LStr (''deployed zkAssetMintable at:    '' @ address i7)),
           ConsoleLog (LStr (''deployed zkAsset at:            '' @ address i8)),
           ConsoleLog (LStr lineBreak)]"
  using assms
  by (auto simp add: report_addresses_def js_defs frame_defs settled_def Let_def
      split: sum.splits option.splits)

lemma instantiate_success:
  assumes "instantiate besu lib txo w = (Inr registry, w')"
  shows "\<exists>c1 c2 c3 c4 c5 c6 c7 c8 i1 i2 i3 i4 i5 i6 i7 i8 regs r1 r2 r3.
      registry = [''ace'' \<mapsto> i1, ''joinSplit'' \<mapsto> i2, ''joinSplitFluid'' \<mapsto> i3,
                  ''erc20'' \<mapsto> i4, ''baseFactory'' \<mapsto> i5, ''adjustableFactory'' \<mapsto> i6,
                  ''zkAssetMintable'' \<mapsto> i7, ''zkAsset'' \<mapsto> i8]
    \<and> registration_events i1 i5 i6 txo regs
    \<and> global_i w' = global_i w
    \<and> trace w' = trace w @
         [ConsoleLog (LStr lineBreak),
          ConsoleLog (LStr ''deploying AZTEC contracts...''),
          Await (ReadContract ''ACE.json'') (Fulfilled (Artifact c1)),
          Await (ReadContract ''JoinSplit.json'') (Fulfilled (Artifact c2)),
          Await (ReadContract ''JoinSplitFluid.json'') (Fulfilled (Artifact c3)),
          Await (ReadContract ''ERC20Mintable.json'') (Fulfilled (Artifact c4)),
          Await (ReadContract ''FactoryBase201907.json'') (Fulfilled (Artifact c5)),
          Await (ReadContract ''FactoryAdjustable201907.json'') (Fulfilled (Artifact c6)),
          Await (ReadContract ''ZkAssetMintable.json'') (Fulfilled (Artifact c7)),
          Await (ReadContract ''ZkAsset.json'') (Fulfilled (Artifact c8)),
          Await (New c1 [] txo) (Fulfilled (Deployed i1)),
          Await (New c2 [] txo) (Fulfilled (Deployed i2)),
          Await (New c3 [] txo) (Fulfilled (Deployed i3)),
          Await (New c4 [] txo) (Fulfilled (Deployed i4)),
          Await (New c5 [Addr (address i1)] txo) (Fulfilled (Deployed i5)),
          Await (New c6 [Addr (address i1)] txo) (Fulfilled (Deployed i6))]
         @ regs @
         [Await (New c7 [Addr (address i1), Addr (address i4), Num (ERC20_SCALING_FACTOR lib),
                         Num 0, Arr []] txo) (Fulfilled (Deployed i7)),
          Await (New c8 [Addr (address i1), Addr (address i4), Num 1] txo)
            (Fulfilled (Deployed i8)),
          Await (Send i1 (SetCommonReferenceString (CRS lib)) txo) (Fulfilled (Receipt r1)),
          Await (Send i1 (SetProof (JOIN_SPLIT_PROOF lib) (address i2)) txo)
            (Fulfilled (Receipt r2)),
          Await (Send i1 (SetProof (MINT_PROOF lib) (address i3)) txo) (Fulfilled (Receipt r3)),
          ConsoleLog (LStr (''deployed ace at:                '' @ address i1)),
          ConsoleLog (LStr (''deployed joinSplit at:          '' @ address i2)),
          ConsoleLog (LStr (''deployed joinSplitFluid at:     '' @ address i3)),
          ConsoleLog (LStr (''deployed erc20 at:              '' @ address i4)),
          ConsoleLog (LStr (''deployed baseFactory at:        '' @ address i5)),
          ConsoleLog (LStr (''deployed adjustableFactory at:  '' @ address i6)),
          ConsoleLog (LStr (''deployed zkAssetMintable at:    '' @ address i7)),
          ConsoleLog (LStr (''deployed zkAsset at:            '' @ address i8)),
          ConsoleLog (LStr lineBreak)]"
proof -
  define s1 where "s1 = (new_frame w)\<lparr>trace := trace (new_frame w) @
      [ConsoleLog (LStr lineBreak), ConsoleLog (LStr ''deploying AZTEC contracts...'')]\<rparr>"
  have s1: "instances s1 = Map.empty" "ZKASSET s1 = None" "global_i s1 = global_i w"
    "trace s1 = trace w @
      [ConsoleLog (LStr lineBreak), ConsoleLog (LStr ''deploying AZTEC contracts...'')]"
    by (simp_all add: s1_def new_frame_def)
  from read_schemas_try [of besu s1] obtain s2 where
    T1: "try_catch (read_schemas besu) log_error s1 = (Inr (), s2)"
    and s2: "instances s2 = instances s1" "global_i s2 = global_i s1"
    and R1: "(\<exists>c1 c2 c3 c4 c5 c6 c7 c8.
            trace s2 = trace s1 @
                   [Await (ReadContract ''ACE.json'') (Fulfilled (Artifact c1)),
                    Await (ReadContract ''JoinSplit.json'') (Fulfilled (Artifact c2)),
                    Await (ReadContract ''JoinSplitFluid.json'') (Fulfilled (Artifact c3)),
                    Await (ReadContract ''ERC20Mintable.json'') (Fulfilled (Artifact c4)),
                    Await (ReadContract ''FactoryBase201907.json'') (Fulfilled (Artifact c5)),
                    Await (ReadContract ''FactoryAdjustable201907.json'') (Fulfilled (Artifact c6)),
                    Await (ReadContract ''ZkAssetMintable.json'') (Fulfilled (Artifact c7)),
                    Await (ReadContract ''ZkAsset.json'') (Fulfilled (Artifact c8))]
            \<and> ACE s2 = Some c1 \<and> JOINSPLIT s2 = Some c2 \<and> JOINSPLIT_FLUID s2 = Some c3
            \<and> ERC20_MINTABLE s2 = Some c4 \<and> BASE_FACTORY s2 = Some c5
            \<and> ADJUSTABLE_FACTORY s2 = Some c6 \<and> ZKASSET_MINTABLE s2 = Some c7
            \<and> ZKASSET s2 = Some c8)
          \<or> ZKASSET s2 = ZKASSET s1"
    by blast
  from deploy_engine_try [of besu txo s2] obtain s3 where
    T2: "try_catch (deploy_engine besu txo) log_error s2 = (Inr (), s3)"
    and s3: "ZKASSET_MINTABLE s3 = ZKASSET_MINTABLE s2" "ZKASSET s3 = ZKASSET s2"
      "global_i s3 = global_i s2"
    and R2: "(\<exists>c1 c2 c3 c4 c5 c6 i1 i2 i3 i4 i5 i6.
            trace s3 = trace s2 @
                   [Await (New c1 [] txo) (Fulfilled (Deployed i1)),
                    Await (New c2 [] txo) (Fulfilled (Deployed i2)),
                    Await (New c3 [] txo) (Fulfilled (Deployed i3)),
                    Await (New c4 [] txo) (Fulfilled (Deployed i4)),
                    Await (New c5 [Addr (address i1)] txo) (Fulfilled (Deployed i5)),
                    Await (New c6 [Addr (address i1)] txo) (Fulfilled (Deployed i6))]
            \<and> ACE s2 = Some c1 \<and> JOINSPLIT s2 = Some c2 \<and> JOINSPLIT_FLUID s2 = Some c3
            \<and> ERC20_MINTABLE s2 = Some c4 \<and> BASE_FACTORY s2 = Some c5
            \<and> ADJUSTABLE_FACTORY s2 = Some c6
            \<and> instances s3 = (instances s2)(''ace'' \<mapsto> i1, ''joinSplit'' \<mapsto> i2,
                  ''joinSplitFluid'' \<mapsto> i3, ''erc20'' \<mapsto> i4, ''baseFactory'' \<mapsto> i5,
                  ''adjustableFactory'' \<mapsto> i6))
          \<or> (instances s3 ''adjustableFactory'' = instances s2 ''adjustableFactory''
             \<and> instances s3 ''zkAssetMintable'' = instances s2 ''zkAssetMintable''
             \<and> instances s3 ''zkAsset'' = instances s2 ''zkAsset'')"
    by blast
  from set_factories_try [of besu txo s3] obtain s4 regs where
    T3: "try_catch (set_factories besu txo) log_error s3 = (Inr (), s4)"
    and s4: "instances s4 = instances s3" "ZKASSET_MINTABLE s4 = ZKASSET_MINTABLE s3"
      "ZKASSET s4 = ZKASSET s3" "global_i s4 = global_i s3" "trace s4 = trace s3 @ regs"
    and R3: "\<And>a b f. instances s3 ''ace'' = Some a \<Longrightarrow> instances s3 ''baseFactory'' = Some b
            \<Longrightarrow> instances s3 ''adjustableFactory'' = Some f
            \<Longrightarrow> registration_events a b f txo regs"
    unfolding registration_events_def by blast
  from deploy_zk_assets_try [of besu lib txo s4] obtain s5 where
    T4: "try_catch (deploy_zk_assets besu lib txo) log_error s4 = (Inr (), s5)"
    and s5: "global_i s5 = global_i s4"
      "instances s5 ''adjustableFactory'' = instances s4 ''adjustableFactory''"
    and R4: "(\<exists>c7 c8 a t i7 i8.
            trace s5 = trace s4 @
              [Await (New c7 [Addr (address a), Addr (address t), Num (ERC20_SCALING_FACTOR lib),
                              Num 0, Arr []] txo) (Fulfilled (Deployed i7)),
               Await (New c8 [Addr (address a), Addr (address t), Num 1] txo)
                 (Fulfilled (Deployed i8))]
            \<and> ZKASSET_MINTABLE s4 = Some c7 \<and> ZKASSET s4 = Some c8
            \<and> instances s4 ''ace'' = Some a \<and> instances s4 ''erc20'' = Some t
            \<and> instances s5 = (instances s4)(''zkAssetMintable'' \<mapsto> i7, ''zkAsset'' \<mapsto> i8))
          \<or> instances s5 ''zkAsset'' = instances s4 ''zkAsset''"
    by blast
  have body: "instantiate_body besu lib txo (new_frame w) =
      js_then (configure_engine besu lib txo)
        (js_then report_addresses (\<lambda>s. (Inr (instances s), s))) s5"
    by (simp add: instantiate_body_def deployment_steps_def js_then_def js_bind_def
        console_log_def T1 T2 T3 T4 s1_def [symmetric])
  from assms obtain s6 s7 where
    C: "configure_engine besu lib txo s5 = (Inr (), s6)"
    and P: "report_addresses s6 = (Inr (), s7)"
    and fin: "registry = instances s7" "w' = leave_frame s7"
    by (auto simp: instantiate_def body js_then_def js_bind_def split: prod.splits sum.splits)
  from configure_engine_ok [OF C] obtain r1 r2 r3 a j f where
    s6: "instances s6 = instances s5" "global_i s6 = global_i s5"
    and cfg: "instances s5 ''ace'' = Some a" "instances s5 ''joinSplit'' = Some j"
      "instances s5 ''joinSplitFluid'' = Some f"
      "trace s6 = trace s5 @
          [Await (Send a (SetCommonReferenceString (CRS lib)) txo) (Fulfilled (Receipt r1)),
           Await (Send a (SetProof (JOIN_SPLIT_PROOF lib) (address j)) txo) (Fulfilled (Receipt r2)),
           Await (Send a (SetProof (MINT_PROOF lib) (address f)) txo) (Fulfilled (Receipt r3))]"
    by blast
  from report_addresses_ok [OF P] obtain i1 i2 i3 i4 i5 i6 i7 i8 where
    s7: "instances s7 = instances s6" "global_i s7 = global_i s6"
    and rep: "instances s6 ''ace'' = Some i1" "instances s6 ''joinSplit'' = Some i2"
      "instances s6 ''joinSplitFluid'' = Some i3" "instances s6 ''erc20'' = Some i4"
      "instances s6 ''baseFactory'' = Some i5" "instances s6 ''adjustableFactory'' = Some i6"
      "instances s6 ''zkAssetMintable'' = Some i7" "instances s6 ''zkAsset'' = Some i8"
      "trace s7 = trace s6 @
          [ConsoleLog (LStr (''deployed ace at:                '' @ address i1)),
           ConsoleLog (LStr (''deployed joinSplit at:          '' @ address i2)),
           ConsoleLog (LStr (''deployed joinSplitFluid at:     '' @ address i3)),
           ConsoleLog (LStr (''deployed erc20 at:              '' @ address i4)),
           ConsoleLog (LStr (''deployed baseFactory at:        '' @ address i5)),
           ConsoleLog (LStr (''deployed adjustableFactory at:  '' @ address i6)),
           ConsoleLog (LStr (''deployed zkAssetMintable at:    '' @ address i7)),
           ConsoleLog (LStr (''deployed zkAsset at:            '' @ address i8)),
           ConsoleLog (LStr lineBreak)]"
    by blast
  have core_done: "instances s3 ''adjustableFactory'' \<noteq> None"
    using rep(6) s6(1) s5(2) s4(1) by simp
  have zk_missing: "instances s4 ''zkAsset'' = None"
    using R2 s2(1) s1(1) s4(1) by auto
  from R2 core_done s2(1) s1(1) obtain c1 c2 c3 c4 c5 c6 j1 j2 j3 j4 j5 j6 where
    core: "trace s3 = trace s2 @
                   [Await (New c1 [] txo) (Fulfilled (Deployed j1)),
                    Await (New c2 [] txo) (Fulfilled (Deployed j2)),
                    Await (New c3 [] txo) (Fulfilled (Deployed j3)),
                    Await (New c4 [] txo) (Fulfilled (Deployed j4)),
                    Await (New c5 [Addr (address j1)] txo) (Fulfilled (Deployed j5)),
                    Await (New c6 [Addr (address j1)] txo) (Fulfilled (Deployed j6))]"
      "ACE s2 = Some c1" "JOINSPLIT s2 = Some c2" "JOINSPLIT_FLUID s2 = Some c3"
      "ERC20_MINTABLE s2 = Some c4" "BASE_FACTORY s2 = Some c5" "ADJUSTABLE_FACTORY s2 = Some c6"
      "instances s3 = [''ace'' \<mapsto> j1, ''joinSplit'' \<mapsto> j2,
                  ''joinSplitFluid'' \<mapsto> j3, ''erc20'' \<mapsto> j4, ''baseFactory'' \<mapsto> j5,
                  ''adjustableFactory'' \<mapsto> j6]"
    by auto
  from R4 zk_missing rep(8) s6(1) obtain c7 c8 a' t' j7 j8 where
    zk: "trace s5 = trace s4 @
              [Await (New c7 [Addr (address a'), Addr (address t'), Num (ERC20_SCALING_FACTOR lib),
                              Num 0, Arr []] txo) (Fulfilled (Deployed j7)),
               Await (New c8 [Addr (address a'), Addr (address t'), Num 1] txo)
                 (Fulfilled (Deployed j8))]"
      "ZKASSET_MINTABLE s4 = Some c7" "ZKASSET s4 = Some c8"
      "instances s4 ''ace'' = Some a'" "instances s4 ''erc20'' = Some t'"
      "instances s5 = (instances s4)(''zkAssetMintable'' \<mapsto> j7, ''zkAsset'' \<mapsto> j8)"
    by auto
  have inst5: "instances s5 = [''ace'' \<mapsto> j1, ''joinSplit'' \<mapsto> j2,
                  ''joinSplitFluid'' \<mapsto> j3, ''erc20'' \<mapsto> j4, ''baseFactory'' \<mapsto> j5,
                  ''adjustableFactory'' \<mapsto> j6, ''zkAssetMintable'' \<mapsto> j7, ''zkAsset'' \<mapsto> j8]"
    using zk(6) s4(1) core(8) by simp
  have ids: "i1 = j1" "i2 = j2" "i3 = j3" "i4 = j4" "i5 = j5" "i6 = j6" "i7 = j7" "i8 = j8"
    "a = j1" "j = j2" "f = j3" "a' = j1" "t' = j4"
    using rep(1-8) cfg(1-3) zk(4,5) s6(1) s4(1) core(8) inst5 by simp_all
  have "ZKASSET s2 \<noteq> ZKASSET s1"
    using zk(3) s4(3) s3(2) s1(2) by simp
  with R1 obtain d1 d2 d3 d4 d5 d6 d7 d8 where
    reads: "trace s2 = trace s1 @
                   [Await (ReadContract ''ACE.json'') (Fulfilled (Artifact d1)),
                    Await (ReadContract ''JoinSplit.json'') (Fulfilled (Artifact d2)),
                    Await (ReadContract ''JoinSplitFluid.json'') (Fulfilled (Artifact d3)),
                    Await (ReadContract ''ERC20Mintable.json'') (Fulfilled (Artifact d4)),
                    Await (ReadContract ''FactoryBase201907.json'') (Fulfilled (Artifact d5)),
                    Await (ReadContract ''FactoryAdjustable201907.json'') (Fulfilled (Artifact d6)),
                    Await (ReadContract ''ZkAssetMintable.json'') (Fulfilled (Artifact d7)),
                    Await (ReadContract ''ZkAsset.json'') (Fulfilled (Artifact d8))]"
      "ACE s2 = Some d1" "JOINSPLIT s2 = Some d2" "JOINSPLIT_FLUID s2 = Some d3"
      "ERC20_MINTABLE s2 = Some d4" "BASE_FACTORY s2 = Some d5"
      "ADJUSTABLE_FACTORY s2 = Some d6" "ZKASSET_MINTABLE s2 = Some d7" "ZKASSET s2 = Some d8"
    by blast
  have cs: "c1 = d1" "c2 = d2" "c3 = d3" "c4 = d4" "c5 = d5" "c6 = d6" "c7 = d7" "c8 = d8"
    using reads(2-9) core(2-7) zk(2,3) s4(2,3) s3(1,2) by simp_all
  have regs: "registration_events j1 j5 j6 txo regs"
    by (rule R3) (simp_all add: core(8))
  have tr: "trace w' = trace s7" and gi: "global_i w' = global_i w"
    using fin(2) s7(2) s6(2) s5(1) s4(4) s3(3) s2(2) s1(3) by (simp_all add: leave_frame_def)
  show ?thesis
    apply (rule exI [of _ d1], rule exI [of _ d2], rule exI [of _ d3], rule exI [of _ d4])
    apply (rule exI [of _ d5], rule exI [of _ d6], rule exI [of _ d7], rule exI [of _ d8])
    apply (rule exI [of _ j1], rule exI [of _ j2], rule exI [of _ j3], rule exI [of _ j4])
    apply (rule exI [of _ j5], rule exI [of _ j6], rule exI [of _ j7], rule exI [of _ j8])
    apply (rule exI [of _ regs], rule exI [of _ r1], rule exI [of _ r2], rule exI [of _ r3])
    using regs gi
    by (simp add: tr rep(9) cfg(4) zk(1) s4(5) core(1) reads(1) s1(4) fin(1) s7(1) s6(1) inst5
        ids cs)
qed

text \<open>
  Claim C9. When \<^verbatim>\<open>instantiate\<close> returns, the registry it returns has exactly the eight
  names \<^verbatim>\<open>ace\<close>, \<^verbatim>\<open>joinSplit\<close>, \<^verbatim>\<open>joinSplitFluid\<close>, \<^verbatim>\<open>erc20\<close>, \<^verbatim>\<open>baseFactory\<close>,
  \<^verbatim>\<open>adjustableFactory\<close>, \<^verbatim>\<open>zkAssetMintable\<close> and \<^verbatim>\<open>zkAsset\<close>. The first six artifacts were
  read and the first six deployments, in this order, built the engine from the artifact
  \<^verbatim>\<open>ACE.json\<close>, then the two verifiers and the token, then the two factories, each factory
  with the address of the engine stored under \<^verbatim>\<open>ace\<close> as its only argument; so the engine
  is deployed before either factory.
\<close>

theorem instantiate_registry:
  assumes "instantiate besu lib txo w = (Inr registry, w')"
  shows "dom registry = {''ace'', ''joinSplit'', ''joinSplitFluid'', ''erc20'', ''baseFactory'',
                         ''adjustableFactory'', ''zkAssetMintable'', ''zkAsset''}
    \<and> card (dom registry) = 8
    \<and> (\<exists>cA cJ cF cT cB cD ace joinSplit joinSplitFluid erc20 baseFactory adjustableFactory.
          registry ''ace'' = Some ace \<and> registry ''joinSplit'' = Some joinSplit
        \<and> registry ''joinSplitFluid'' = Some joinSplitFluid \<and> registry ''erc20'' = Some erc20
        \<and> registry ''baseFactory'' = Some baseFactory
        \<and> registry ''adjustableFactory'' = Some adjustableFactory
        \<and> take 6 (filter is_readContract (emitted w w')) =
            [Await (ReadContract ''ACE.json'') (Fulfilled (Artifact cA)),
             Await (ReadContract ''JoinSplit.json'') (Fulfilled (Artifact cJ)),
             Await (ReadContract ''JoinSplitFluid.json'') (Fulfilled (Artifact cF)),
             Await (ReadContract ''ERC20Mintable.json'') (Fulfilled (Artifact cT)),
             Await (ReadContract ''FactoryBase201907.json'') (Fulfilled (Artifact cB)),
             Await (ReadContract ''FactoryAdjustable201907.json'') (Fulfilled (Artifact cD))]
        \<and> take 6 (filter is_deployment (emitted w w')) =
            [Await (New cA [] txo) (Fulfilled (Deployed ace)),
             Await (New cJ [] txo) (Fulfilled (Deployed joinSplit)),
             Await (New cF [] txo) (Fulfilled (Deployed joinSplitFluid)),
             Await (New cT [] txo) (Fulfilled (Deployed erc20)),
             Await (New cB [Addr (address ace)] txo) (Fulfilled (Deployed baseFactory)),
             Await (New cD [Addr (address ace)] txo) (Fulfilled (Deployed adjustableFactory))])"
proof -
  from instantiate_success [OF assms]
  obtain c1 c2 c3 c4 c5 c6 c7 c8 i1 i2 i3 i4 i5 i6 i7 i8 regs r1 r2 r3 where
    reg: "registry = [''ace'' \<mapsto> i1, ''joinSplit'' \<mapsto> i2, ''joinSplitFluid'' \<mapsto> i3,
                  ''erc20'' \<mapsto> i4, ''baseFactory'' \<mapsto> i5, ''adjustableFactory'' \<mapsto> i6,
                  ''zkAssetMintable'' \<mapsto> i7, ''zkAsset'' \<mapsto> i8]"
    and regs: "registration_events i1 i5 i6 txo regs"
    and tr: "trace w' = trace w @
         [ConsoleLog (LStr lineBreak),
          ConsoleLog (LStr ''deploying AZTEC contracts...''),
          Await (ReadContract ''ACE.json'') (Fulfilled (Artifact c1)),
          Await (ReadContract ''JoinSplit.json'') (Fulfilled (Artifact c2)),
          Await (ReadContract ''JoinSplitFluid.json'') (Fulfilled (Artifact c3)),
          Await (ReadContract ''ERC20Mintable.json'') (Fulfilled (Artifact c4)),
          Await (ReadContract ''FactoryBase201907.json'') (Fulfilled (Artifact c5)),
          Await (ReadContract ''FactoryAdjustable201907.json'') (Fulfilled (Artifact c6)),
          Await (ReadContract ''ZkAssetMintable.json'') (Fulfilled (Artifact c7)),
          Await (ReadContract ''ZkAsset.json'') (Fulfilled (Artifact c8)),
          Await (New c1 [] txo) (Fulfilled (Deployed i1)),
          Await (New c2 [] txo) (Fulfilled (Deployed i2)),
          Await (New c3 [] txo) (Fulfilled (Deployed i3)),
          Await (New c4 [] txo) (Fulfilled (Deployed i4)),
          Await (New c5 [Addr (address i1)] txo) (Fulfilled (Deployed i5)),
          Await (New c6 [Addr (address i1)] txo) (Fulfilled (Deployed i6))]
         @ regs @
         [Await (New c7 [Addr (address i1), Addr (address i4), Num (ERC20_SCALING_FACTOR lib),
                         Num 0, Arr []] txo) (Fulfilled (Deployed i7)),
          Await (New c8 [Addr (address i1), Addr (address i4), Num 1] txo)
            (Fulfilled (Deployed i8)),
          Await (Send i1 (SetCommonReferenceString (CRS lib)) txo) (Fulfilled (Receipt r1)),
          Await (Send i1 (SetProof (JOIN_SPLIT_PROOF lib) (address i2)) txo)
            (Fulfilled (Receipt r2)),
          Await (Send i1 (SetProof (MINT_PROOF lib) (address i3)) txo) (Fulfilled (Receipt r3)),
          ConsoleLog (LStr (''deployed ace at:                '' @ address i1)),
          ConsoleLog (LStr (''deployed joinSplit at:          '' @ address i2)),
          ConsoleLog (LStr (''deployed joinSplitFluid at:     '' @ address i3)),
          ConsoleLog (LStr (''deployed erc20 at:              '' @ address i4)),
          ConsoleLog (LStr (''deployed baseFactory at:        '' @ address i5)),
          ConsoleLog (LStr (''deployed adjustableFactory at:  '' @ address i6)),
          ConsoleLog (LStr (''deployed zkAssetMintable at:    '' @ address i7)),
          ConsoleLog (LStr (''deployed zkAsset at:            '' @ address i8)),
          ConsoleLog (LStr lineBreak)]"
    by blast
  have d: "dom registry = {''ace'', ''joinSplit'', ''joinSplitFluid'', ''erc20'', ''baseFactory'',
                         ''adjustableFactory'', ''zkAssetMintable'', ''zkAsset''}"
    by (auto simp: reg)
  have c: "card (dom registry) = 8"
    by (simp add: d)
  show ?thesis
    using d c by (simp add: emitted_def tr reg)
qed

lemma ok_run: "instantiate ok_chain lib0 tx0 w0 = (Inr ok_registry, ok_world)"
  by (simp add: instantiate_def instantiate_body_def deployment_steps_def read_schemas_def
      deploy_engine_def set_factories_def deploy_zk_assets_def configure_engine_def
      report_addresses_def js_defs frame_defs settled_def Let_def new_frame_def leave_frame_def
      ok_chain_def lib0_def w0_def ok_registry_def ok_world_def)

theorem instantiate_registry_witness:
  "instantiate ok_chain lib0 tx0 w0 = (Inr ok_registry, ok_world)
   \<and> card (dom ok_registry) = 8
   \<and> take 6 (filter is_deployment (emitted w0 ok_world)) =
       [Await (New (Schema ''ACE.json'') [] tx0) (Fulfilled (Deployed \<lparr>address = ''0xACE.json''\<rparr>)),
        Await (New (Schema ''JoinSplit.json'') [] tx0)
          (Fulfilled (Deployed \<lparr>address = ''0xJoinSplit.json''\<rparr>)),
        Await (New (Schema ''JoinSplitFluid.json'') [] tx0)
          (Fulfilled (Deployed \<lparr>address = ''0xJoinSplitFluid.json''\<rparr>)),
        Await (New (Schema ''ERC20Mintable.json'') [] tx0)
          (Fulfilled (Deployed \<lparr>address = ''0xERC20Mintable.json''\<rparr>)),
        Await (New (Schema ''FactoryBase201907.json'') [Addr ''0xACE.json''] tx0)
          (Fulfilled (Deployed \<lparr>address = ''0xFactoryBase201907.json''\<rparr>)),
        Await (New (Schema ''FactoryAdjustable201907.json'') [Addr ''0xACE.json''] tx0)
          (Fulfilled (Deployed \<lparr>address = ''0xFactoryAdjustable201907.json''\<rparr>))]"
  using instantiate_registry [OF ok_run]
  by (simp add: ok_run) (simp add: ok_registry_def ok_world_def w0_def emitted_def)

text \<open>
  Claim C3. When \<^verbatim>\<open>instantiate\<close> returns, exactly two asset wrappers were deployed, after
  the six other contracts. Both receive the engine's address and the token's address.
  The first, from the artifact \<^verbatim>\<open>ZkAssetMintable.json\<close> and stored as \<^verbatim>\<open>zkAssetMintable\<close>,
  also receives the constant \<^verbatim>\<open>ERC20_SCALING_FACTOR\<close>, the number 0 in the position the
  source labels \<^verbatim>\<open>canMint\<close> and the empty list in the position it labels \<^verbatim>\<open>canConvert\<close>.
  The second, from \<^verbatim>\<open>ZkAsset.json\<close> and stored as \<^verbatim>\<open>zkAsset\<close>, receives the scaling factor
  1 and nothing else: it has no minting argument.
\<close>

theorem zk_assets_deployed:
  assumes "instantiate besu lib txo w = (Inr registry, w')"
  shows "\<exists>cM cZ ace erc20 zkAssetMintable zkAsset.
          registry ''ace'' = Some ace \<and> registry ''erc20'' = Some erc20
        \<and> registry ''zkAssetMintable'' = Some zkAssetMintable
        \<and> registry ''zkAsset'' = Some zkAsset
        \<and> drop 6 (filter is_readContract (emitted w w')) =
            [Await (ReadContract ''ZkAssetMintable.json'') (Fulfilled (Artifact cM)),
             Await (ReadContract ''ZkAsset.json'') (Fulfilled (Artifact cZ))]
        \<and> filter asset_deployment (emitted w w') =
            [Await (New cM [Addr (address ace), Addr (address erc20),
                            Num (ERC20_SCALING_FACTOR lib), Num 0, Arr []] txo)
               (Fulfilled (Deployed zkAssetMintable)),
             Await (New cZ [Addr (address ace), Addr (address erc20), Num 1] txo)
               (Fulfilled (Deployed zkAsset))]
        \<and> drop 6 (filter is_deployment (emitted w w')) = filter asset_deployment (emitted w w')"
  using instantiate_success [OF assms]
  by (auto simp: emitted_def registration_events_def)

theorem zk_assets_deployed_witness:
  "instantiate ok_chain lib0 tx0 w0 = (Inr ok_registry, ok_world)
   \<and> filter asset_deployment (emitted w0 ok_world) =
       [Await (New (Schema ''ZkAssetMintable.json'')
                 [Addr ''0xACE.json'', Addr ''0xERC20Mintable.json'', Num 1, Num 0, Arr []] tx0)
          (Fulfilled (Deployed \<lparr>address = ''0xZkAssetMintable.json''\<rparr>)),
        Await (New (Schema ''ZkAsset.json'')
                 [Addr ''0xACE.json'', Addr ''0xERC20Mintable.json'', Num 1] tx0)
          (Fulfilled (Deployed \<lparr>address = ''0xZkAsset.json''\<rparr>))]"
  using zk_assets_deployed [OF ok_run]
  by (simp add: ok_run) (simp add: ok_registry_def ok_world_def w0_def emitted_def lib0_def)

text \<open>
  Claim C4. When \<^verbatim>\<open>instantiate\<close> returns and no registration was rejected, the run
  made exactly three \<^verbatim>\<open>setFactory\<close> calls, all on the engine, with the keys
  \<open>65536 + 256 + N\<close> for \<open>N = 1, 2, 3\<close> in this order: key 1 with the address of the base
  factory, keys 2 and 3 both with the address of the adjustable factory. (A rejected
  registration is caught, and the registrations after it in the same \<^verbatim>\<open>try\<close> are not
  made.)
\<close>

theorem factories_registered:
  assumes "instantiate besu lib txo w = (Inr registry, w')"
    and "\<forall>c key a t e. Await (Send c (SetFactory key a) t) (Rejected e) \<notin> set (emitted w w')"
  shows "\<exists>ace baseFactory adjustableFactory r1 r2 r3.
          registry ''ace'' = Some ace \<and> registry ''baseFactory'' = Some baseFactory
        \<and> registry ''adjustableFactory'' = Some adjustableFactory
        \<and> filter is_setFactory (emitted w w') =
            [Await (Send ace (SetFactory (65536 + 256 + 1) (address baseFactory)) txo)
               (Fulfilled (Receipt r1)),
             Await (Send ace (SetFactory (65536 + 256 + 2) (address adjustableFactory)) txo)
               (Fulfilled (Receipt r2)),
             Await (Send ace (SetFactory (65536 + 256 + 3) (address adjustableFactory)) txo)
               (Fulfilled (Receipt r3))]"
  using instantiate_success [OF assms(1)] assms(2)
  by (auto simp: emitted_def registration_events_def)

lemma ok_run_no_rejection:
  "\<forall>c key a t e. Await (Send c (SetFactory key a) t) (Rejected e) \<notin> set (emitted w0 ok_world)"
  by (simp add: ok_world_def w0_def emitted_def)

theorem factories_registered_witness:
  "instantiate ok_chain lib0 tx0 w0 = (Inr ok_registry, ok_world)
   \<and> (\<forall>c key a t e. Await (Send c (SetFactory key a) t) (Rejected e) \<notin> set (emitted w0 ok_world))
   \<and> filter is_setFactory (emitted w0 ok_world) =
       [Await (Send \<lparr>address = ''0xACE.json''\<rparr> (SetFactory 65793 ''0xFactoryBase201907.json'') tx0)
          (Fulfilled (Receipt \<lparr>logs = []\<rparr>)),
        Await (Send \<lparr>address = ''0xACE.json''\<rparr>
                 (SetFactory 65794 ''0xFactoryAdjustable201907.json'') tx0)
          (Fulfilled (Receipt \<lparr>logs = []\<rparr>)),
        Await (Send \<lparr>address = ''0xACE.json''\<rparr>
                 (SetFactory 65795 ''0xFactoryAdjustable201907.json'') tx0)
          (Fulfilled (Receipt \<lparr>logs = []\<rparr>))]"
  using factories_registered [OF ok_run ok_run_no_rejection]
  by (simp add: ok_run ok_run_no_rejection) (simp add: ok_registry_def ok_world_def w0_def emitted_def)

section \<open>Failures\<close>


lemma emits_then:
  assumes app: "\<And>xs ys. P xs \<Longrightarrow> P ys \<Longrightarrow> P (xs @ ys)"
    and m: "emits P m" and n: "emits P n"
  shows "emits P (js_then m n)"
  unfolding emits_def
proof
  fix s
  from m obtain xs where xs: "trace (snd (m s)) = trace s @ xs" "P xs"
    unfolding emits_def by blast
  show "\<exists>evs. trace (snd (js_then m n s)) = trace s @ evs \<and> P evs"
  proof (cases "m s")
    case (Pair r s')
    show ?thesis
    proof (cases r)
      case (Inl a)
      with Pair xs show ?thesis by (auto simp: js_then_def js_bind_def)
    next
      case (Inr x)
      from n obtain ys where ys: "trace (snd (n s')) = trace s' @ ys" "P ys"
        unfolding emits_def by blast
      from Pair Inr have "js_then m n s = n s'" by (simp add: js_then_def js_bind_def)
      with xs ys Pair show ?thesis by (auto intro: app)
    qed
  qed
qed










lemma instantiate_trace:
  "trace (snd (instantiate besu lib txo w))
     = trace (snd (instantiate_body besu lib txo (new_frame w)))"
  by (simp add: instantiate_def leave_frame_def case_prod_beta)

lemma instantiate_result:
  "fst (instantiate besu lib txo w) = fst (instantiate_body besu lib txo (new_frame w))"
  by (simp add: instantiate_def case_prod_beta)


lemma deployment_steps_normal: "fst (deployment_steps besu lib txo s) = Inr ()"
proof -
  from read_schemas_try [of besu s] obtain s2 where
    T1: "try_catch (read_schemas besu) log_error s = (Inr (), s2)" by blast
  from deploy_engine_try [of besu txo s2] obtain s3 where
    T2: "try_catch (deploy_engine besu txo) log_error s2 = (Inr (), s3)" by blast
  from set_factories_try [of besu txo s3] obtain s4 where
    T3: "try_catch (set_factories besu txo) log_error s3 = (Inr (), s4)" by blast
  from deploy_zk_assets_try [of besu lib txo s4] obtain s5 where
    T4: "try_catch (deploy_zk_assets besu lib txo) log_error s4 = (Inr (), s5)" by blast
  show ?thesis
    by (simp add: deployment_steps_def js_then_def js_bind_def T1 T2 T3 T4)
qed





lemma no_configuration_append:
  "list_all (\<lambda>ev. \<not> is_configuration ev) xs \<Longrightarrow> list_all (\<lambda>ev. \<not> is_configuration ev) ys
   \<Longrightarrow> list_all (\<lambda>ev. \<not> is_configuration ev) (xs @ ys)"
  by simp

lemma read_schemas_no_configuration:
  "emits (list_all (\<lambda>ev. \<not> is_configuration ev)) (try_catch (read_schemas besu) log_error)"
  unfolding emits_def
  by (simp add: read_schemas_def js_defs frame_defs settled_def Let_def split: sum.splits)

lemma deploy_engine_no_configuration:
  "emits (list_all (\<lambda>ev. \<not> is_configuration ev)) (try_catch (deploy_engine besu txo) log_error)"
  unfolding emits_def
  by (simp add: deploy_engine_def js_defs frame_defs settled_def Let_def
      split: sum.splits option.splits)

lemma set_factories_no_configuration:
  "emits (list_all (\<lambda>ev. \<not> is_configuration ev)) (try_catch (set_factories besu txo) log_error)"
  unfolding emits_def
  by (simp add: set_factories_def js_defs frame_defs settled_def Let_def
      split: sum.splits option.splits)

lemma deploy_zk_assets_no_configuration:
  "emits (list_all (\<lambda>ev. \<not> is_configuration ev))
     (try_catch (deploy_zk_assets besu lib txo) log_error)"
  unfolding emits_def
  by (simp add: deploy_zk_assets_def js_defs frame_defs settled_def Let_def
      split: sum.splits option.splits)

lemma deployment_steps_no_configuration:
  "emits (list_all (\<lambda>ev. \<not> is_configuration ev)) (deployment_steps besu lib txo)"
  unfolding deployment_steps_def
  by (intro emits_then no_configuration_append read_schemas_no_configuration
      deploy_engine_no_configuration set_factories_no_configuration
      deploy_zk_assets_no_configuration)

lemma instantiate_prefix:
  "\<exists>s pre. instantiate_body besu lib txo (new_frame w) =
         js_then (configure_engine besu lib txo)
           (js_then report_addresses (\<lambda>s. (Inr (instances s), s))) s
       \<and> trace s = trace w @ pre \<and> list_all (\<lambda>ev. \<not> is_configuration ev) pre"
proof -
  let ?s1 = "(new_frame w)\<lparr>trace := trace (new_frame w) @
      [ConsoleLog (LStr lineBreak), ConsoleLog (LStr ''deploying AZTEC contracts...'')]\<rparr>"
  obtain s5 where s5: "deployment_steps besu lib txo ?s1 = (Inr (), s5)"
    using deployment_steps_normal [of besu lib txo ?s1] by (metis prod.collapse)
  from deployment_steps_no_configuration [of besu lib txo] obtain evs where
    evs: "trace (snd (deployment_steps besu lib txo ?s1)) = trace ?s1 @ evs"
      "list_all (\<lambda>ev. \<not> is_configuration ev) evs"
    unfolding emits_def by blast
  have "instantiate_body besu lib txo (new_frame w) =
         js_then (configure_engine besu lib txo)
           (js_then report_addresses (\<lambda>s. (Inr (instances s), s))) s5"
    using s5 by (simp add: instantiate_body_def js_then_def js_bind_def console_log_def)
  moreover have "trace s5 = trace w @
      ([ConsoleLog (LStr lineBreak), ConsoleLog (LStr ''deploying AZTEC contracts...'')] @ evs)"
    using evs(1) s5 by (simp add: new_frame_def)
  moreover have "list_all (\<lambda>ev. \<not> is_configuration ev)
      ([ConsoleLog (LStr lineBreak), ConsoleLog (LStr ''deploying AZTEC contracts...'')] @ evs)"
    using evs(2) by simp
  ultimately show ?thesis by blast
qed

lemma configuration_tail:
  "\<exists>evs. trace (snd (js_then (configure_engine besu lib txo)
                        (js_then report_addresses (\<lambda>s. (Inr (instances s), s))) s))
            = trace s @ evs
     \<and> (\<forall>c. fst (js_then (configure_engine besu lib txo)
                    (js_then report_addresses (\<lambda>s. (Inr (instances s), s))) s) \<noteq> Inl (Exited c))
     \<and> (\<forall>c e. configuration_call c \<and> Await c (Rejected e) \<in> set evs \<longrightarrow>
            fst (js_then (configure_engine besu lib txo)
                   (js_then report_addresses (\<lambda>s. (Inr (instances s), s))) s) = Inl (Thrown e)
          \<and> evs \<noteq> [] \<and> last evs = Await c (Rejected e))"
  by (simp add: configure_engine_def report_addresses_def js_defs frame_defs settled_def Let_def
      split: sum.splits option.splits)

lemma instantiate_configuration_failure:
  assumes "configuration_call c"
    and "Await c (Rejected e) \<in> set (emitted w (snd (instantiate besu lib txo w)))"
  shows "fst (instantiate besu lib txo w) = Inl (Thrown e)
     \<and> last (emitted w (snd (instantiate besu lib txo w))) = Await c (Rejected e)"
proof -
  let ?tail = "js_then (configure_engine besu lib txo)
           (js_then report_addresses (\<lambda>s. (Inr (instances s), s)))"
  from instantiate_prefix [of besu lib txo w] obtain s pre where
    body: "instantiate_body besu lib txo (new_frame w) = ?tail s"
    and pre: "trace s = trace w @ pre" "list_all (\<lambda>ev. \<not> is_configuration ev) pre"
    by blast
  from configuration_tail [of besu lib txo s] obtain evs where
    evs: "trace (snd (?tail s)) = trace s @ evs"
    and rej: "\<And>c e. configuration_call c \<Longrightarrow> Await c (Rejected e) \<in> set evs \<Longrightarrow>
            fst (?tail s) = Inl (Thrown e) \<and> evs \<noteq> [] \<and> last evs = Await c (Rejected e)"
    by blast
  have em: "emitted w (snd (instantiate besu lib txo w)) = pre @ evs"
    using evs pre(1) by (simp add: instantiate_trace body emitted_def)
  have res: "fst (instantiate besu lib txo w) = fst (?tail s)"
    by (simp add: instantiate_result body)
  have "Await c (Rejected e) \<notin> set pre"
    using pre(2) assms(1) by (auto simp: list_all_iff)
  with assms(2) em have "Await c (Rejected e) \<in> set evs" by simp
  from rej [OF assms(1) this] show ?thesis
    by (simp add: em res)
qed


lemmas run_defs = instantiate_def instantiate_body_def deployment_steps_def read_schemas_def
  deploy_engine_def set_factories_def deploy_zk_assets_def configure_engine_def
  report_addresses_def js_defs frame_defs settled_def Let_def new_frame_def leave_frame_def
  ok_chain_def lib0_def w0_def tx0_def emitted_def



text \<open>
  Claim C8. The calls of lines 100 to 102 are outside every \<^verbatim>\<open>try\<close>: in any run of
  \<^verbatim>\<open>instantiate\<close>, a rejected \<^verbatim>\<open>setCommonReferenceString\<close> or \<^verbatim>\<open>setProof\<close> is the last event
  of the run (it is not logged, nothing follows) and \<^verbatim>\<open>instantiate\<close> ends by throwing the
  value it was rejected with. In a run that returns, the configuration calls are these
  three, on the engine: the reference string, then \<^verbatim>\<open>JOIN_SPLIT_PROOF\<close> bound to the
  address of \<^verbatim>\<open>joinSplit\<close>, then \<^verbatim>\<open>MINT_PROOF\<close> bound to the address of \<^verbatim>\<open>joinSplitFluid\<close>.
\<close>

theorem configuration_failures_propagate:
  "(\<forall>c e. configuration_call c
          \<and> Await c (Rejected e) \<in> set (emitted w (snd (instantiate besu lib txo w)))
        \<longrightarrow> fst (instantiate besu lib txo w) = Inl (Thrown e)
          \<and> last (emitted w (snd (instantiate besu lib txo w))) = Await c (Rejected e))
   \<and> (\<forall>registry. fst (instantiate besu lib txo w) = Inr registry \<longrightarrow>
         (\<exists>ace joinSplit joinSplitFluid r1 r2 r3.
            registry ''ace'' = Some ace \<and> registry ''joinSplit'' = Some joinSplit
          \<and> registry ''joinSplitFluid'' = Some joinSplitFluid
          \<and> filter is_configuration (emitted w (snd (instantiate besu lib txo w))) =
              [Await (Send ace (SetCommonReferenceString (CRS lib)) txo) (Fulfilled (Receipt r1)),
               Await (Send ace (SetProof (JOIN_SPLIT_PROOF lib) (address joinSplit)) txo)
                 (Fulfilled (Receipt r2)),
               Await (Send ace (SetProof (MINT_PROOF lib) (address joinSplitFluid)) txo)
                 (Fulfilled (Receipt r3))]))"
proof (intro conjI allI impI)
  fix c e
  assume "configuration_call c
          \<and> Await c (Rejected e) \<in> set (emitted w (snd (instantiate besu lib txo w)))"
  then show "fst (instantiate besu lib txo w) = Inl (Thrown e)"
    and "last (emitted w (snd (instantiate besu lib txo w))) = Await c (Rejected e)"
    using instantiate_configuration_failure [of c e w besu lib txo] by simp_all
next
  fix registry
  assume "fst (instantiate besu lib txo w) = Inr registry"
  then have "instantiate besu lib txo w = (Inr registry, snd (instantiate besu lib txo w))"
    by (metis prod.collapse)
  from instantiate_success [OF this]
  show "\<exists>ace joinSplit joinSplitFluid r1 r2 r3.
            registry ''ace'' = Some ace \<and> registry ''joinSplit'' = Some joinSplit
          \<and> registry ''joinSplitFluid'' = Some joinSplitFluid
          \<and> filter is_configuration (emitted w (snd (instantiate besu lib txo w))) =
              [Await (Send ace (SetCommonReferenceString (CRS lib)) txo) (Fulfilled (Receipt r1)),
               Await (Send ace (SetProof (JOIN_SPLIT_PROOF lib) (address joinSplit)) txo)
                 (Fulfilled (Receipt r2)),
               Await (Send ace (SetProof (MINT_PROOF lib) (address joinSplitFluid)) txo)
                 (Fulfilled (Receipt r3))]"
    by (auto simp: emitted_def registration_events_def)
qed

theorem configuration_failures_propagate_witness:
  "configuration_call (Send \<lparr>address = ''0xACE.json''\<rparr> (SetProof 65793 ''0xJoinSplit.json'') tx0)
   \<and> Await (Send \<lparr>address = ''0xACE.json''\<rparr> (SetProof 65793 ''0xJoinSplit.json'') tx0)
        (Rejected (Failure ''revert''))
     \<in> set (emitted w0 (snd (instantiate reverting_chain lib0 tx0 w0)))
   \<and> fst (instantiate reverting_chain lib0 tx0 w0) = Inl (Thrown (Failure ''revert''))
   \<and> last (emitted w0 (snd (instantiate reverting_chain lib0 tx0 w0)))
     = Await (Send \<lparr>address = ''0xACE.json''\<rparr> (SetProof 65793 ''0xJoinSplit.json'') tx0)
         (Rejected (Failure ''revert''))"
proof -
  have rej: "Await (Send \<lparr>address = ''0xACE.json''\<rparr> (SetProof 65793 ''0xJoinSplit.json'') tx0)
        (Rejected (Failure ''revert''))
     \<in> set (emitted w0 (snd (instantiate reverting_chain lib0 tx0 w0)))"
    by (simp add: run_defs reverting_chain_def)
  have cc: "configuration_call
      (Send \<lparr>address = ''0xACE.json''\<rparr> (SetProof 65793 ''0xJoinSplit.json'') tx0)"
    by simp
  from rej cc configuration_failures_propagate [of w0 reverting_chain lib0 tx0]
  show ?thesis by blast
qed

end
